theory Spec2Isabelle
  imports Complex_Main
begin

chapter \<open>The model\<close>

section \<open>Shared vocabulary\<close>

text \<open>
  A thrown JavaScript value is an \<open>Error\<close> carrying its message; a function that may
  throw returns \<open>error + 'a\<close>, with \<open>Inl\<close> for the throw. An \<open>async\<close> function is
  modelled by the value its promise settles to.
\<close>

datatype error = Error string

fun message :: "error \<Rightarrow> string" where
  "message (Error m) = m"

text \<open>\<open>core.warning\<close> and \<open>core.info\<close> append to the job log.\<close>

datatype log_entry = Warning string | Info string

text \<open>
  Everything the action does to the outside: the job log, the \<open>sleep\<close> calls, the number
  of external requests issued so far (the answers of the remote store and of the file
  system are functions of that counter, so that a call may fail once and succeed later),
  the files and directories written, and the archive entries whose data was inflated by
  \<open>entry.getData()\<close>.
\<close>

record world =
  wlog :: "log_entry list"
  slept :: "nat list"
  tick :: nat
  disk :: "string \<rightharpoonup> string"
  made_dirs :: "string list"
  inflated :: "string list"

definition warning :: "string \<Rightarrow> world \<Rightarrow> world" where
  "warning m w = w\<lparr>wlog := wlog w @ [Warning m]\<rparr>"

definition info :: "string \<Rightarrow> world \<Rightarrow> world" where
  "info m w = w\<lparr>wlog := wlog w @ [Info m]\<rparr>"

definition sleep :: "nat \<Rightarrow> world \<Rightarrow> world" where
  "sleep ms w = w\<lparr>slept := slept w @ [ms]\<rparr>"

section \<open>types.ts\<close>

text \<open>
  Byte counts are JavaScript numbers holding integers; they are \<open>int\<close> here (the
  differences of two totals are signed). The field \<open>size\<close> of \<open>FileStats\<close> is \<open>fsize\<close>.
\<close>

record FileStats =
  path :: string
  name :: string
  fsize :: int
  gzip :: int
  brotli :: int

record BundleStats =
  files :: "FileStats list"
  totalSize :: int
  totalGzip :: int
  totalBrotli :: int
  timestamp :: string
  commit :: string

section \<open>JavaScript numbers\<close>

text \<open>
  A JavaScript number is a double: not-a-number, an infinity, or a finite number. An
  arithmetic operation on finite numbers gives the exact result rounded to a double; the
  rounding \<open>rnd\<close> belongs to the platform and is a parameter of the functions that
  compute with doubles (it gives an infinity where the exact result is out of range). A
  quotient whose divisor is zero is not rounded and is not finite: \<open>0 / 0\<close> is NaN, and
  \<open>x / 0\<close> is the infinity with the sign of \<open>x\<close>. The sign of a zero is not modelled.
\<close>

datatype jsnum = NaN | PosInfinity | NegInfinity | Finite real

fun isFinite :: "jsnum \<Rightarrow> bool" where
  "isFinite (Finite x) = True"
| "isFinite _ = False"

text \<open>\<open>x / y\<close> for finite \<open>x\<close> and \<open>y\<close>, and \<open>x * y\<close> for a finite \<open>y\<close>.\<close>

definition js_divide :: "(real \<Rightarrow> jsnum) \<Rightarrow> real \<Rightarrow> real \<Rightarrow> jsnum" where
  "js_divide rnd x y =
     (if y = 0 then (if x = 0 then NaN else if x > 0 then PosInfinity else NegInfinity)
      else rnd (x / y))"

fun js_times :: "(real \<Rightarrow> jsnum) \<Rightarrow> jsnum \<Rightarrow> real \<Rightarrow> jsnum" where
  "js_times rnd (Finite x) y = rnd (x * y)"
| "js_times rnd NaN y = NaN"
| "js_times rnd PosInfinity y =
     (if y > 0 then PosInfinity else if y < 0 then NegInfinity else NaN)"
| "js_times rnd NegInfinity y =
     (if y > 0 then NegInfinity else if y < 0 then PosInfinity else NaN)"

section \<open>comment.ts: calculateDiffMetrics\<close>

record DiffMetrics =
  diffSize :: int
  diffGzip :: int
  diffBrotli :: int
  diffPercentSize :: jsnum
  diffPercentGzip :: jsnum
  diffPercentBrotli :: jsnum
  sizeEmoji :: string
  gzipEmoji :: string
  brotliEmoji :: string

definition getChangeEmoji :: "int \<Rightarrow> string" where
  "getChangeEmoji v =
     (if v > 0 then '':arrow_up_small:''
      else if v < 0 then '':arrow_down_small:''
      else '':white_circle:'')"

text \<open>
  The totals are integers and so are the three differences; each percentage is the
  double the expression \<open>(diff / total) * 100\<close> evaluates to, or the literal \<open>0\<close>.
\<close>

definition calculateDiffMetrics ::
  "(real \<Rightarrow> jsnum) \<Rightarrow> BundleStats \<Rightarrow> BundleStats \<Rightarrow> DiffMetrics" where
  "calculateDiffMetrics rnd current baseline =
     (let dSize = totalSize current - totalSize baseline;
          dGzip = totalGzip current - totalGzip baseline;
          dBrotli = totalBrotli current - totalBrotli baseline;
          pSize = (if totalSize baseline > 0
                   then js_times rnd
                          (js_divide rnd (real_of_int dSize) (real_of_int (totalSize baseline))) 100
                   else Finite 0);
          pGzip = (if totalGzip baseline > 0
                   then js_times rnd
                          (js_divide rnd (real_of_int dGzip) (real_of_int (totalGzip baseline))) 100
                   else Finite 0);
          pBrotli = (if totalBrotli baseline > 0
                   then js_times rnd
                          (js_divide rnd (real_of_int dBrotli) (real_of_int (totalBrotli baseline))) 100
                   else Finite 0)
      in \<lparr>diffSize = dSize, diffGzip = dGzip, diffBrotli = dBrotli,
          diffPercentSize = pSize, diffPercentGzip = pGzip, diffPercentBrotli = pBrotli,
          sizeEmoji = getChangeEmoji dSize, gzipEmoji = getChangeEmoji dGzip,
          brotliEmoji = getChangeEmoji dBrotli\<rparr>)"

section \<open>index.ts: numeric threshold inputs\<close>

text \<open>
  \<open>parseFloat\<close> returns a number: not-a-number, an infinity, or a finite number.
  \<open>parseFloat\<close> itself and \<open>core.getInput\<close> belong to the platform and are parameters
  (\<open>core.getInput\<close> returns the empty string for an input that is not set).
\<close>

definition readNumberInput ::
  "(string \<Rightarrow> jsnum) \<Rightarrow> (string \<Rightarrow> string) \<Rightarrow> string \<Rightarrow> string \<Rightarrow> error + real option" where
  "readNumberInput parseFloat getInput key errorMessage =
     (let v = getInput key in
      if v = [] then Inr None
      else (case parseFloat v of
              Finite x \<Rightarrow> Inr (Some x)
            | _ \<Rightarrow> Inl (Error errorMessage)))"

definition sanitizeNonNegative :: "real option \<Rightarrow> string \<Rightarrow> world \<Rightarrow> real option \<times> world" where
  "sanitizeNonNegative v key w =
     (case v of
        None \<Rightarrow> (None, w)
      | Some x \<Rightarrow>
          if x < 0 then (None, warning (key @ '' cannot be negative; ignoring.'') w)
          else (Some x, w))"

record thresholds =
  budgetMaxIncreaseKb :: "real option"
  warnAboveKb :: "real option"
  failAboveKb :: "real option"

text \<open>
  The first six statements of \<open>readActionInputs\<close>: the three reads, then the three
  sanitizations. A throw leaves \<open>readActionInputs\<close> and is turned into
  \<open>core.setFailed\<close> by the \<open>catch\<close> of \<open>run\<close>.
\<close>

definition readActionInputs_thresholds ::
  "(string \<Rightarrow> jsnum) \<Rightarrow> (string \<Rightarrow> string) \<Rightarrow> world \<Rightarrow> (error + thresholds) \<times> world" where
  "readActionInputs_thresholds parseFloat getInput w =
     (case readNumberInput parseFloat getInput ''budget-max-increase-kb''
             ''budget-max-increase-kb must be a number (e.g., 10 or 0.5)'' of
        Inl e \<Rightarrow> (Inl e, w)
      | Inr budgetRaw \<Rightarrow>
     (case readNumberInput parseFloat getInput ''warn-above-kb''
             ''warn-above-kb must be a number (e.g., 50)'' of
        Inl e \<Rightarrow> (Inl e, w)
      | Inr warnRaw \<Rightarrow>
     (case readNumberInput parseFloat getInput ''fail-above-kb''
             ''fail-above-kb must be a number (e.g., 100)'' of
        Inl e \<Rightarrow> (Inl e, w)
      | Inr failRaw \<Rightarrow>
          (let (budget, w1) = sanitizeNonNegative budgetRaw ''budget-max-increase-kb'' w;
               (warn, w2) = sanitizeNonNegative warnRaw ''warn-above-kb'' w1;
               (fail, w3) = sanitizeNonNegative failRaw ''fail-above-kb'' w2
           in (Inr \<lparr>budgetMaxIncreaseKb = budget, warnAboveKb = warn, failAboveKb = fail\<rparr>,
               w3)))))"

section \<open>Strings and numbers in messages\<close>

text \<open>\<open>s.startsWith(p)\<close> and \<open>xs.join(sep)\<close>.\<close>

definition startsWith :: "string \<Rightarrow> string \<Rightarrow> bool" where
  "startsWith s p = (take (length p) s = p)"

fun join :: "string \<Rightarrow> string list \<Rightarrow> string" where
  "join sep [] = []"
| "join sep [x] = x"
| "join sep (x # y # ys) = x @ sep @ join sep (y # ys)"

text \<open>A template literal prints an integer in decimal.\<close>

definition digit :: "nat \<Rightarrow> char" where
  "digit d = ''0123456789'' ! d"

function show_nat :: "nat \<Rightarrow> string" where
  "show_nat n = (if n < 10 then [digit n] else show_nat (n div 10) @ [digit (n mod 10)])"
  by pat_completeness auto
termination
  by (relation "measure (\<lambda>n. n)") auto

definition show_int :: "int \<Rightarrow> string" where
  "show_int i = (if i < 0 then CHR ''-'' # show_nat (nat (- i)) else show_nat (nat i))"

section \<open>JSON values\<close>

text \<open>
  What \<open>JSON.parse\<close> returns. The members of an object are listed once per key.
  \<open>JSON.parse\<close> itself belongs to the platform and is a parameter of the environment
  below.
\<close>

datatype json =
  JNull
| JBool bool
| JNumber real
| JString string
| JArray "json list"
| JObject "(string \<times> json) list"

text \<open>
  \<open>v.key\<close> for a parsed value \<open>v\<close> and one of the keys \<open>totalGzip\<close> and \<open>commit\<close>:
  it throws a TypeError on \<open>null\<close>, and is \<open>undefined\<close> (\<open>None\<close>) on an object without
  the key and on a boolean, a number, a string or an array. The messages of the engine
  are written without their quotation marks.
\<close>

definition read_property :: "json \<Rightarrow> string \<Rightarrow> error + json option" where
  "read_property v key =
     (case v of
        JNull \<Rightarrow> Inl (Error (''Cannot read properties of null (reading '' @ key @ '')''))
      | JObject members \<Rightarrow> Inr (map_of members key)
      | _ \<Rightarrow> Inr None)"

text \<open>
  \<open>c.slice(0, 7)\<close> for what \<open>stats.commit\<close> gave: strings and arrays have the method
  \<open>slice\<close>; on \<open>undefined\<close> and \<open>null\<close> the read of \<open>slice\<close> throws, and on every other
  parsed value \<open>slice\<close> is not a function and the call throws.
\<close>

definition slice_0_7 :: "json option \<Rightarrow> error + json" where
  "slice_0_7 c =
     (case c of
        None \<Rightarrow> Inl (Error ''Cannot read properties of undefined (reading slice)'')
      | Some JNull \<Rightarrow> Inl (Error ''Cannot read properties of null (reading slice)'')
      | Some (JString s) \<Rightarrow> Inr (JString (take 7 s))
      | Some (JArray xs) \<Rightarrow> Inr (JArray (take 7 xs))
      | Some _ \<Rightarrow> Inl (Error ''stats.commit.slice is not a function''))"

text \<open>
  A value inside a template literal. \<open>num\<close> prints a number and belongs to the platform;
  an array prints its elements separated by commas, a \<open>null\<close> among them as nothing.
\<close>

fun js_string :: "(real \<Rightarrow> string) \<Rightarrow> json \<Rightarrow> string" where
  "js_string num JNull = ''null''"
| "js_string num (JBool b) = (if b then ''true'' else ''false'')"
| "js_string num (JNumber x) = num x"
| "js_string num (JString s) = s"
| "js_string num (JArray xs) = join '','' (map (\<lambda>x. if x = JNull then [] else js_string num x) xs)"
| "js_string num (JObject members) = ''[object Object]''"

definition template_string :: "(real \<Rightarrow> string) \<Rightarrow> json option \<Rightarrow> string" where
  "template_string num v = (case v of None \<Rightarrow> ''undefined'' | Some x \<Rightarrow> js_string num x)"

section \<open>The POSIX \<open>path\<close> module of Node, as far as artifact.ts uses it\<close>

text \<open>
  \<open>path.join\<close>, \<open>path.resolve\<close> and \<open>path.dirname\<close> belong to Node; they are written
  out here after their POSIX implementation so that the extraction can be run on
  entry names such as \<open>../../etc/passwd\<close>. A path is cut at its slashes; empty
  segments and \<open>.\<close> are dropped, \<open>..\<close> removes the segment before it, and above the
  root of an absolute path \<open>..\<close> is dropped. \<open>res\<close> holds the segments kept so far, last
  one first.
\<close>

fun split_on :: "char \<Rightarrow> string \<Rightarrow> string list" where
  "split_on c [] = [[]]"
| "split_on c (x # xs) =
     (if x = c then [] # split_on c xs
      else (case split_on c xs of
              [] \<Rightarrow> [[x]]
            | s # ss \<Rightarrow> (x # s) # ss))"

fun normalize_segments :: "bool \<Rightarrow> string list \<Rightarrow> string list \<Rightarrow> string list" where
  "normalize_segments allowAboveRoot res [] = rev res"
| "normalize_segments allowAboveRoot res (s # ss) =
     (if s = [] \<or> s = ''.'' then normalize_segments allowAboveRoot res ss
      else if s = ''..'' then
        (case res of
           [] \<Rightarrow> normalize_segments allowAboveRoot (if allowAboveRoot then [''..''] else []) ss
         | r # rs \<Rightarrow>
             if r = ''..''
             then normalize_segments allowAboveRoot (if allowAboveRoot then ''..'' # res else res) ss
             else normalize_segments allowAboveRoot rs ss)
      else normalize_segments allowAboveRoot (s # res) ss)"

definition path_normalize :: "string \<Rightarrow> string" where
  "path_normalize p =
     (let isAbsolute = startsWith p ''/'';
          trailingSeparator = (p \<noteq> [] \<and> last p = CHR ''/'');
          r = join ''/'' (normalize_segments (\<not> isAbsolute) [] (split_on CHR ''/'' p))
      in if p = [] then ''.''
         else if r = [] then (if isAbsolute then ''/'' else if trailingSeparator then ''./'' else ''.'')
         else (if isAbsolute then ''/'' else []) @ r @ (if trailingSeparator then ''/'' else []))"

definition path_join :: "string \<Rightarrow> string \<Rightarrow> string" where
  "path_join a b =
     (let parts = filter (\<lambda>s. s \<noteq> []) [a, b]
      in if parts = [] then ''.'' else path_normalize (join ''/'' parts))"

text \<open>\<open>cwd\<close> is \<open>process.cwd()\<close>, an absolute path.\<close>

definition path_resolve :: "string \<Rightarrow> string \<Rightarrow> string \<Rightarrow> string" where
  "path_resolve cwd a b =
     (let full = (if startsWith b ''/'' then b
                  else if startsWith a ''/'' then a @ ''/'' @ b
                  else cwd @ ''/'' @ a @ ''/'' @ b)
      in ''/'' @ join ''/'' (normalize_segments False [] (split_on CHR ''/'' full)))"

definition path_dirname :: "string \<Rightarrow> string" where
  "path_dirname p =
     (if p = [] then ''.''
      else
        (let hasRoot = (hd p = CHR ''/'');
             stripped = rev (dropWhile (\<lambda>c. c = CHR ''/'') (rev (tl p)));
             k = length (takeWhile (\<lambda>c. c \<noteq> CHR ''/'') (rev stripped))
         in if k = length stripped then (if hasRoot then ''/'' else ''.'')
            else if hasRoot \<and> length stripped - k = 1 then ''//''
            else take (length stripped - k) p))"

section \<open>artifact.ts: constants and remote data\<close>

definition ARTIFACT_NAME :: string where
  "ARTIFACT_NAME = ''bundle-stats''"

definition STATS_FILE :: string where
  "STATS_FILE = ''bundle-stats.json''"

definition RETRY_COUNT :: nat where
  "RETRY_COUNT = 3"

definition RETRY_BASE_DELAY_MS :: nat where
  "RETRY_BASE_DELAY_MS = 1000"

definition MAX_ARTIFACT_SIZE_MB :: nat where
  "MAX_ARTIFACT_SIZE_MB = 50"

definition MAX_ARTIFACT_UNZIPPED_MB :: nat where
  "MAX_ARTIFACT_UNZIPPED_MB = 200"

text \<open>
  \<open>ArtifactItem\<close>: \<open>id\<close> and \<open>name\<close> are \<open>artifact_id\<close> and \<open>artifact_name\<close>; an absent
  \<open>expired\<close> is \<open>False\<close>; \<open>head_branch\<close> is \<open>workflow_run?.head_branch\<close>, \<open>None\<close> when the
  run or the branch is missing or null.
\<close>

record ArtifactItem =
  artifact_id :: nat
  artifact_name :: string
  expired :: bool
  head_branch :: "string option"

record workflow =
  workflow_id :: nat
  workflow_name :: string

text \<open>
  The shapes \<open>extractArtifacts\<close> tells apart: an object with an \<open>artifacts\<close> field (an
  array or not), a bare array, anything else.
\<close>

datatype artifacts_data =
  ObjectWithArtifacts "ArtifactItem list option"
| BareArray "ArtifactItem list"
| OtherShape

fun extractArtifacts :: "artifacts_data \<Rightarrow> ArtifactItem list" where
  "extractArtifacts (ObjectWithArtifacts (Some artifacts)) = artifacts"
| "extractArtifacts (ObjectWithArtifacts None) = []"
| "extractArtifacts (BareArray artifacts) = artifacts"
| "extractArtifacts OtherShape = []"

datatype payload =
  ArrayBufferData string
| BufferData string
| Uint8ArrayData string
| StringData string
| UnsupportedData

fun toBuffer :: "payload \<Rightarrow> error + string" where
  "toBuffer (ArrayBufferData b) = Inr b"
| "toBuffer (BufferData b) = Inr b"
| "toBuffer (Uint8ArrayData b) = Inr b"
| "toBuffer (StringData b) = Inr b"
| "toBuffer UnsupportedData = Inl (Error ''Unsupported artifact download response'')"

text \<open>
  An entry of the opened archive: \<open>header_size\<close> is \<open>entry.header?.size\<close> when it is a
  number, \<open>getData\<close> is what \<open>entry.getData()\<close> returns or throws.
\<close>

record zip_entry =
  entryName :: string
  isDirectory :: bool
  header_size :: "nat option"
  getData :: "error + string"

text \<open>
  The surroundings of one run. Each remote endpoint answers as a function of the number
  of external requests issued before it (the first argument), so that the same request
  may fail and later succeed. \<open>listWorkflowRuns\<close> returns the ids of \<open>workflow_runs\<close>
  (\<open>None\<close> when the field is missing); a page of \<open>listArtifactsForRepo\<close> comes with the
  flag that a further page exists. \<open>fs_fault\<close> makes a file-system call fail;
  \<open>unzip\<close> is \<open>new AdmZip(...).getEntries()\<close> on the bytes of a file; \<open>json_parse\<close> is
  \<open>JSON.parse\<close>, which throws on a text that is not JSON; \<open>number_string\<close> prints a
  number inside a template literal.
\<close>

record env =
  GITHUB_WORKFLOW_REF :: "string option"
  RUNNER_TEMP :: "string option"
  cwd :: string
  context_workflow :: string
  getWorkflow :: "nat \<Rightarrow> string \<Rightarrow> error + nat"
  listRepoWorkflows :: "nat \<Rightarrow> error + workflow list"
  listWorkflowRuns :: "nat \<Rightarrow> nat \<Rightarrow> string \<Rightarrow> error + nat list option"
  listWorkflowRunArtifacts :: "nat \<Rightarrow> nat \<Rightarrow> error + artifacts_data"
  downloadArtifact :: "nat \<Rightarrow> nat \<Rightarrow> error + payload"
  listArtifactsForRepo :: "nat \<Rightarrow> nat \<Rightarrow> error + (artifacts_data \<times> bool)"
  fs_fault :: "nat \<Rightarrow> error option"
  unzip :: "string \<Rightarrow> error + zip_entry list"
  json_parse :: "string \<Rightarrow> error + json"
  number_string :: "real \<Rightarrow> string"

definition api_call :: "(nat \<Rightarrow> error + 'a) \<Rightarrow> world \<Rightarrow> (error + 'a) \<times> world" where
  "api_call endpoint w = (endpoint (tick w), w\<lparr>tick := tick w + 1\<rparr>)"

section \<open>artifact.ts: retryOnFail\<close>

function retryOnFail_from ::
  "nat \<Rightarrow> (world \<Rightarrow> (error + 'a) \<times> world) \<Rightarrow> string \<Rightarrow> world \<Rightarrow> (error + 'a) \<times> world" where
  "retryOnFail_from attempt fn operation w =
     (if attempt < RETRY_COUNT then
        (case fn w of
           (Inr v, w1) \<Rightarrow> (Inr v, w1)
         | (Inl e, w1) \<Rightarrow>
             if attempt = RETRY_COUNT - 1 then (Inl e, w1)
             else
               (let waitMs = RETRY_BASE_DELAY_MS * 2 ^ attempt
                in retryOnFail_from (attempt + 1) fn operation
                     (sleep waitMs
                       (warning (operation @ '' failed, retrying in '' @ show_nat waitMs
                                 @ ''ms ('' @ show_nat (attempt + 1) @ ''/''
                                 @ show_nat RETRY_COUNT @ '')'') w1))))
      else (Inl (Error ''unreachable''), w))"
  by pat_completeness auto
termination
  by (relation "measure (\<lambda>(attempt, fn, operation, w). RETRY_COUNT - attempt)") auto

definition retryOnFail ::
  "(world \<Rightarrow> (error + 'a) \<times> world) \<Rightarrow> string \<Rightarrow> world \<Rightarrow> (error + 'a) \<times> world" where
  "retryOnFail fn operation w = retryOnFail_from 0 fn operation w"

text \<open>
  The warning of the attempt numbered \<open>attempt\<close> (from 0), and what \<open>retryOnFail\<close> does
  between that attempt and the next: the warning, then the sleep.
\<close>

definition retry_message :: "string \<Rightarrow> nat \<Rightarrow> string" where
  "retry_message operation attempt =
     operation @ '' failed, retrying in '' @ show_nat (RETRY_BASE_DELAY_MS * 2 ^ attempt)
       @ ''ms ('' @ show_nat (attempt + 1) @ ''/'' @ show_nat RETRY_COUNT @ '')''"

definition backoff :: "string \<Rightarrow> nat \<Rightarrow> world \<Rightarrow> world" where
  "backoff operation attempt w =
     sleep (RETRY_BASE_DELAY_MS * 2 ^ attempt) (warning (retry_message operation attempt) w)"

section \<open>artifact.ts: the targeted workflow-run lookup\<close>

text \<open>
  \<open>ref.match(/\.github\/workflows\/(.+?)@/)\<close>: the first place where the literal is
  followed by at least one character other than a line terminator and then, as early as
  possible, by \<open>@\<close>. \<open>capture_until_at\<close> extends the group \<open>acc\<close> up to the next \<open>@\<close>.
\<close>

definition line_terminator :: "char \<Rightarrow> bool" where
  "line_terminator c = (c = CHR 0x0A \<or> c = CHR 0x0D)"

fun capture_until_at :: "string \<Rightarrow> string \<Rightarrow> string option" where
  "capture_until_at acc [] = None"
| "capture_until_at acc (c # cs) =
     (if c = CHR ''@'' then Some acc
      else if line_terminator c then None
      else capture_until_at (acc @ [c]) cs)"

definition capture_group :: "string \<Rightarrow> string option" where
  "capture_group s =
     (case s of
        [] \<Rightarrow> None
      | c # cs \<Rightarrow> if line_terminator c then None else capture_until_at [c] cs)"

fun match_workflow_ref :: "string \<Rightarrow> string option" where
  "match_workflow_ref [] = None"
| "match_workflow_ref (c # cs) =
     (if startsWith (c # cs) ''.github/workflows/''
      then (case capture_group (drop (length ''.github/workflows/'') (c # cs)) of
              Some g \<Rightarrow> Some g
            | None \<Rightarrow> match_workflow_ref cs)
      else match_workflow_ref cs)"

definition getWorkflowFileFromRef :: "env \<Rightarrow> string option" where
  "getWorkflowFileFromRef ev =
     (case GITHUB_WORKFLOW_REF ev of
        None \<Rightarrow> None
      | Some ref \<Rightarrow> if ref = [] then None else match_workflow_ref ref)"

definition resolveWorkflowId :: "env \<Rightarrow> world \<Rightarrow> (error + nat option) \<times> world" where
  "resolveWorkflowId ev w =
     (let fromRef =
            (case getWorkflowFileFromRef ev of
               None \<Rightarrow> (None, w)
             | Some workflowFile \<Rightarrow>
                 (case retryOnFail (api_call (\<lambda>t. getWorkflow ev t workflowFile)) ''getWorkflow'' w of
                    (Inr wid, w1) \<Rightarrow> (Some wid, w1)
                  | (Inl e, w1) \<Rightarrow>
                      (None, warning (''Failed to resolve workflow from ref: '' @ message e) w1)))
      in case fromRef of
           (Some wid, w1) \<Rightarrow> (Inr (Some wid), w1)
         | (None, w1) \<Rightarrow>
             (case retryOnFail (api_call (listRepoWorkflows ev)) ''listRepoWorkflows'' w1 of
                (Inl e, w2) \<Rightarrow> (Inl e, w2)
              | (Inr workflows, w2) \<Rightarrow>
                  (let workflowName = context_workflow ev;
                       matches = filter (\<lambda>wf. workflow_name wf = workflowName) workflows
                   in if length matches = 0
                      then (Inr None, warning ''Could not resolve workflow id for baseline lookup.'' w2)
                      else (Inr (Some (workflow_id (hd matches))),
                            if length matches > 1
                            then warning (''Multiple workflows named '' @ [CHR 0x22] @ workflowName
                                          @ [CHR 0x22] @ '' found; using the first match.'') w2
                            else w2))))"

definition is_baseline :: "ArtifactItem \<Rightarrow> bool" where
  "is_baseline item = (artifact_name item = ARTIFACT_NAME \<and> \<not> expired item)"

text \<open>The loop over the runs of one branch, and the loop over the branches.\<close>

fun search_runs ::
  "env \<Rightarrow> string \<Rightarrow> nat list \<Rightarrow> world \<Rightarrow> (error + ArtifactItem option) \<times> world" where
  "search_runs ev branch [] w = (Inr None, w)"
| "search_runs ev branch (run # runs) w =
     (case retryOnFail (api_call (\<lambda>t. listWorkflowRunArtifacts ev t run))
             ''listWorkflowRunArtifacts'' w of
        (Inl e, w1) \<Rightarrow> (Inl e, w1)
      | (Inr artifactsResponse, w1) \<Rightarrow>
          (case find is_baseline (extractArtifacts artifactsResponse) of
             Some item \<Rightarrow>
               (Inr (Some item),
                info (''Found baseline artifact in workflow run '' @ show_nat run
                      @ '' ('' @ branch @ '')'') w1)
           | None \<Rightarrow> search_runs ev branch runs w1))"

fun search_branches ::
  "env \<Rightarrow> nat \<Rightarrow> string list \<Rightarrow> world \<Rightarrow> (error + ArtifactItem option) \<times> world" where
  "search_branches ev workflowId [] w = (Inr None, w)"
| "search_branches ev workflowId (branch # branches) w =
     (case retryOnFail (api_call (\<lambda>t. listWorkflowRuns ev t workflowId branch))
             ''listWorkflowRuns'' w of
        (Inl e, w1) \<Rightarrow> (Inl e, w1)
      | (Inr runs, w1) \<Rightarrow>
          (let workflowRuns = (case runs of None \<Rightarrow> [] | Some rs \<Rightarrow> rs)
           in if length workflowRuns = 0 then search_branches ev workflowId branches w1
              else (case search_runs ev branch workflowRuns w1 of
                      (Inl e, w2) \<Rightarrow> (Inl e, w2)
                    | (Inr (Some item), w2) \<Rightarrow> (Inr (Some item), w2)
                    | (Inr None, w2) \<Rightarrow> search_branches ev workflowId branches w2)))"

text \<open>\<open>if (!workflowId) return null\<close>: a missing id and the id 0 both end the lookup.\<close>

definition findBaselineArtifactFromWorkflowRuns ::
  "env \<Rightarrow> string list \<Rightarrow> world \<Rightarrow> (error + ArtifactItem option) \<times> world" where
  "findBaselineArtifactFromWorkflowRuns ev branches w =
     (case resolveWorkflowId ev w of
        (Inl e, w1) \<Rightarrow> (Inl e, w1)
      | (Inr None, w1) \<Rightarrow> (Inr None, w1)
      | (Inr (Some workflowId), w1) \<Rightarrow>
          if workflowId = 0 then (Inr None, w1)
          else search_branches ev workflowId branches w1)"

text \<open>
  The specification's reading of the lookup, to compare the loops with: given the runs
  of each branch in the order the store lists them (newest first) and the artifacts of
  each run, the artifacts are laid out branch by branch, run by run, and the first one
  that is not expired and bears the baseline-artifact name is the answer.
\<close>

definition first_match_in_priority_order ::
  "(string \<Rightarrow> nat list) \<Rightarrow> (nat \<Rightarrow> ArtifactItem list) \<Rightarrow> string list \<Rightarrow> ArtifactItem option" where
  "first_match_in_priority_order runs_of artifacts_of branches =
     find (\<lambda>item. artifact_name item = ''bundle-stats'' \<and> \<not> expired item)
       (concat (map (\<lambda>branch. concat (map artifacts_of (runs_of branch))) branches))"

section \<open>artifact.ts: downloadBaselineArtifact\<close>

text \<open>
  The file system: a call fails when \<open>fs_fault\<close> says so at this request; otherwise
  \<open>mkdirSync\<close> records the directory, \<open>writeFileSync\<close> stores the bytes, \<open>readFileSync\<close>
  returns them (and fails where no file is). \<open>existsSync\<close> never throws.
\<close>

definition fs_mkdirSync :: "env \<Rightarrow> string \<Rightarrow> world \<Rightarrow> (error + unit) \<times> world" where
  "fs_mkdirSync ev p w =
     (case fs_fault ev (tick w) of
        Some e \<Rightarrow> (Inl e, w\<lparr>tick := tick w + 1\<rparr>)
      | None \<Rightarrow> (Inr (), w\<lparr>tick := tick w + 1, made_dirs := made_dirs w @ [p]\<rparr>))"

definition fs_writeFileSync :: "env \<Rightarrow> string \<Rightarrow> string \<Rightarrow> world \<Rightarrow> (error + unit) \<times> world" where
  "fs_writeFileSync ev p bytes w =
     (case fs_fault ev (tick w) of
        Some e \<Rightarrow> (Inl e, w\<lparr>tick := tick w + 1\<rparr>)
      | None \<Rightarrow> (Inr (), w\<lparr>tick := tick w + 1, disk := (disk w)(p \<mapsto> bytes)\<rparr>))"

definition fs_readFileSync :: "env \<Rightarrow> string \<Rightarrow> world \<Rightarrow> (error + string) \<times> world" where
  "fs_readFileSync ev p w =
     (case fs_fault ev (tick w) of
        Some e \<Rightarrow> (Inl e, w\<lparr>tick := tick w + 1\<rparr>)
      | None \<Rightarrow>
          (case disk w p of
             None \<Rightarrow> (Inl (Error (''cannot read '' @ p)), w\<lparr>tick := tick w + 1\<rparr>)
           | Some bytes \<Rightarrow> (Inr bytes, w\<lparr>tick := tick w + 1\<rparr>)))"

definition fs_existsSync :: "string \<Rightarrow> world \<Rightarrow> bool" where
  "fs_existsSync p w = (disk w p \<noteq> None \<or> p \<in> set (made_dirs w))"

definition entry_getData :: "zip_entry \<Rightarrow> world \<Rightarrow> (error + string) \<times> world" where
  "entry_getData entry w = (getData entry, w\<lparr>inflated := inflated w @ [entryName entry]\<rparr>)"

text \<open>
  The body of the \<open>for\<close> loop over the entries. \<open>Aborted\<close> is the \<open>return null\<close> inside
  the loop; a throw is caught by the \<open>catch\<close> around the loop, in
  \<open>downloadBaselineArtifact\<close> below.
\<close>

datatype extraction = Completed | Aborted

definition abort_message :: string where
  "abort_message = ''Artifact unzipped size exceeds '' @ show_nat MAX_ARTIFACT_UNZIPPED_MB
                   @ '' MB; aborting extraction.''"

fun extract_entries ::
  "env \<Rightarrow> string \<Rightarrow> zip_entry list \<Rightarrow> nat \<Rightarrow> world \<Rightarrow> (error + extraction) \<times> world" where
  "extract_entries ev extractDir [] unzippedBytes w = (Inr Completed, w)"
| "extract_entries ev extractDir (entry # entries) unzippedBytes w =
     (let target = path_resolve (cwd ev) extractDir (entryName entry)
      in if \<not> startsWith target (extractDir @ ''/'')
         then extract_entries ev extractDir entries unzippedBytes
                (warning (''Skipping path traversal: '' @ entryName entry) w)
         else if isDirectory entry
         then (case fs_mkdirSync ev target w of
                 (Inl e, w1) \<Rightarrow> (Inl e, w1)
               | (Inr u, w1) \<Rightarrow> extract_entries ev extractDir entries unzippedBytes w1)
         else
           (let maxUnzippedBytes = MAX_ARTIFACT_UNZIPPED_MB * 1024 * 1024;
                declaredSize = header_size entry
            in if declaredSize \<noteq> None \<and> unzippedBytes + the declaredSize > maxUnzippedBytes
               then (Inr Aborted, warning abort_message w)
               else
                 (case entry_getData entry w of
                    (Inl e, w1) \<Rightarrow> (Inl e, w1)
                  | (Inr entryData, w1) \<Rightarrow>
                      (let entrySize = (case declaredSize of
                                          Some d \<Rightarrow> d
                                        | None \<Rightarrow> length entryData)
                       in if unzippedBytes + entrySize > maxUnzippedBytes
                          then (Inr Aborted, warning abort_message w1)
                          else
                            (case fs_mkdirSync ev (path_dirname target) w1 of
                               (Inl e, w2) \<Rightarrow> (Inl e, w2)
                             | (Inr u, w2) \<Rightarrow>
                                 (case fs_writeFileSync ev target entryData w2 of
                                    (Inl e, w3) \<Rightarrow> (Inl e, w3)
                                  | (Inr u', w3) \<Rightarrow>
                                      extract_entries ev extractDir entries
                                        (unzippedBytes + entrySize) w3))))))"

definition tempDir :: "env \<Rightarrow> string" where
  "tempDir ev = (case RUNNER_TEMP ev of
                   None \<Rightarrow> ''/tmp''
                 | Some d \<Rightarrow> if d = [] then ''/tmp'' else d)"

definition zipPath :: "env \<Rightarrow> string" where
  "zipPath ev = path_join (tempDir ev) ''baseline-artifact.zip''"

definition extractDir_of :: "env \<Rightarrow> string" where
  "extractDir_of ev = path_join (tempDir ev) ''baseline-extracted''"

text \<open>\<open>new AdmZip(zipPath)\<close> reads the file just written and opens it.\<close>

definition open_zip :: "env \<Rightarrow> world \<Rightarrow> error + zip_entry list" where
  "open_zip ev w =
     (case disk w (zipPath ev) of
        None \<Rightarrow> Inl (Error ''ADM-ZIP: Invalid filename'')
      | Some bytes \<Rightarrow> unzip ev bytes)"

text \<open>\<open>Math.round(n / 1024 / 1024)\<close> for a length \<open>n\<close>.\<close>

definition round_mb :: "nat \<Rightarrow> nat" where
  "round_mb n = (2 * n + 1024 * 1024) div (2 * 1024 * 1024)"

text \<open>
  The last three statements of \<open>downloadBaselineArtifact\<close>: \<open>JSON.parse(content) as
  BundleStats\<close>, the info line, and \<open>return stats\<close>. The cast checks nothing, so what
  is returned under the type \<open>BundleStats\<close> is the parsed value, whatever it is; the info
  line reads \<open>stats.totalGzip\<close> and calls \<open>stats.commit.slice(0, 7)\<close>, and throws where
  these throw.
\<close>

definition load_record :: "env \<Rightarrow> string \<Rightarrow> string \<Rightarrow> world \<Rightarrow> (error + json option) \<times> world" where
  "load_record ev source content w =
     (case json_parse ev content of
        Inl e \<Rightarrow> (Inl e, w)
      | Inr stats \<Rightarrow>
     (case read_property stats ''totalGzip'' of
        Inl e \<Rightarrow> (Inl e, w)
      | Inr gz \<Rightarrow>
     (case read_property stats ''commit'' of
        Inl e \<Rightarrow> (Inl e, w)
      | Inr c \<Rightarrow>
     (case slice_0_7 c of
        Inl e \<Rightarrow> (Inl e, w)
      | Inr short \<Rightarrow>
          (Inr (Some stats),
           info (''Baseline loaded ('' @ source @ ''): ''
                 @ template_string (number_string ev) gz @ '' bytes gzip from commit ''
                 @ template_string (number_string ev) (Some short)) w)))))"

definition downloadBaselineArtifact ::
  "env \<Rightarrow> nat \<Rightarrow> string \<Rightarrow> world \<Rightarrow> (error + json option) \<times> world" where
  "downloadBaselineArtifact ev artifactId source w =
     (case retryOnFail (api_call (\<lambda>t. downloadArtifact ev t artifactId)) ''downloadArtifact'' w of
        (Inl e, w1) \<Rightarrow> (Inl e, w1)
      | (Inr downloadData, w1) \<Rightarrow>
     (case toBuffer downloadData of
        Inl e \<Rightarrow> (Inl e, w1)
      | Inr zipBuffer \<Rightarrow>
          if length zipBuffer = 0
          then (Inr None, warning ''Downloaded artifact is empty'' w1)
          else if length zipBuffer > MAX_ARTIFACT_SIZE_MB * 1024 * 1024
          then (Inl (Error (''Artifact is too large ('' @ show_nat (round_mb (length zipBuffer))
                            @ '' MB)'')), w1)
          else
     (case fs_writeFileSync ev (zipPath ev) zipBuffer w1 of
        (Inl e, w2) \<Rightarrow> (Inl e, w2)
      | (Inr u, w2) \<Rightarrow>
     (case (case open_zip ev w2 of
              Inl e \<Rightarrow> (Inl e, w2)
            | Inr entries \<Rightarrow> extract_entries ev (extractDir_of ev) entries 0 w2) of
        (Inl zipError, w3) \<Rightarrow>
          (Inr None, warning (''Failed to extract artifact zip: '' @ message zipError) w3)
      | (Inr Aborted, w3) \<Rightarrow> (Inr None, w3)
      | (Inr Completed, w3) \<Rightarrow>
          (let statsPath = path_join (extractDir_of ev) STATS_FILE
           in if \<not> fs_existsSync statsPath w3
              then (Inr None, warning ''bundle-stats.json not found in artifact'' w3)
              else
                (case fs_readFileSync ev statsPath w3 of
                   (Inl e, w4) \<Rightarrow> (Inl e, w4)
                 | (Inr content, w4) \<Rightarrow> load_record ev source content w4))))))"

text \<open>
  The cumulative decompressed size of an archive as the extraction counts it: over the
  file entries that stay under the extraction directory (skipped entries and directories are never
  inflated), the size the header declares, or the length of the data when the header
  declares none.
\<close>

definition entry_size :: "zip_entry \<Rightarrow> nat" where
  "entry_size entry =
     (case header_size entry of
        Some d \<Rightarrow> d
      | None \<Rightarrow> (case getData entry of Inr bytes \<Rightarrow> length bytes | Inl e \<Rightarrow> 0))"

definition unzipped_total :: "env \<Rightarrow> string \<Rightarrow> zip_entry list \<Rightarrow> nat" where
  "unzipped_total ev dir entries =
     sum_list (map entry_size
       (filter (\<lambda>entry. startsWith (path_resolve (cwd ev) dir (entryName entry)) (dir @ ''/'')
                        \<and> \<not> isDirectory entry) entries))"

section \<open>artifact.ts: fetchBaselineArtifact\<close>

text \<open>The test of the inner loop of the repository-wide scan.\<close>

definition is_candidate :: "string list \<Rightarrow> ArtifactItem \<Rightarrow> bool" where
  "is_candidate branches item =
     (if artifact_name item \<noteq> ARTIFACT_NAME \<or> expired item then False
      else (case head_branch item of
              None \<Rightarrow> False
            | Some headBranch \<Rightarrow> headBranch \<noteq> [] \<and> headBranch \<in> set branches))"

definition limit_message :: "int \<Rightarrow> nat \<Rightarrow> string list \<Rightarrow> string" where
  "limit_message maxPages totalArtifactsChecked branches =
     ''Reached max artifact search limit ('' @ show_int maxPages @ '' pages, ''
       @ show_nat totalArtifactsChecked @ '' artifacts checked). ''
     @ ''No baseline found for branches: '' @ join '', '' branches @ ''. ''
     @ ''Increase max-artifact-pages if your baseline is older. ''
     @ ''Current repository has at least '' @ show_nat totalArtifactsChecked
       @ '' artifacts - consider reducing artifact retention.''"

text \<open>
  How the \<open>for await\<close> loop over the pages ends: with an artifact (\<open>break\<close>), with the
  \<open>return null\<close> at the page limit, or because the iterator has no further page (then
  with the page and artifact counts). \<open>pageCount\<close> pages have been read before the call.
\<close>

datatype page_scan = Found ArtifactItem | LimitReached | Exhausted nat nat

function scan_pages ::
  "env \<Rightarrow> string list \<Rightarrow> int \<Rightarrow> nat \<Rightarrow> nat \<Rightarrow> world \<Rightarrow> (error + page_scan) \<times> world" where
  "scan_pages ev branches maxPages pageCount totalArtifactsChecked w =
     (case api_call (\<lambda>t. listArtifactsForRepo ev t pageCount) w of
        (Inl e, w1) \<Rightarrow> (Inl e, w1)
      | (Inr (data, hasNext), w1) \<Rightarrow>
          (let pageCount' = pageCount + 1;
               artifacts = extractArtifacts data;
               total' = totalArtifactsChecked + length artifacts
           in case find (is_candidate branches) artifacts of
                Some artifact \<Rightarrow>
                  (Inr (Found artifact),
                   info (''Found baseline artifact after checking '' @ show_nat total'
                         @ '' artifacts ('' @ show_nat pageCount' @ '' pages)'') w1)
              | None \<Rightarrow>
                  if int pageCount' \<ge> maxPages
                  then (Inr LimitReached, warning (limit_message maxPages total' branches) w1)
                  else if hasNext
                  then scan_pages ev branches maxPages pageCount' total' w1
                  else (Inr (Exhausted pageCount' total'), w1)))"
  by pat_completeness auto
termination
  by (relation "measure (\<lambda>(ev, branches, maxPages, pageCount, total, w). nat (maxPages - int pageCount))")
     auto

definition search_message :: "int \<Rightarrow> string" where
  "search_message maxPages =
     ''Searching for baseline artifact (max '' @ show_int maxPages @ '' pages, ''
       @ show_int (maxPages * 100) @ '' artifacts)''"

text \<open>The part of \<open>fetchBaselineArtifact\<close> from \<open>const branchSet\<close> to the last download.\<close>

definition repo_search ::
  "env \<Rightarrow> string list \<Rightarrow> int \<Rightarrow> world \<Rightarrow> (error + json option) \<times> world" where
  "repo_search ev branches maxPages w =
     (case scan_pages ev branches maxPages 0 0 (info (search_message maxPages) w) of
        (Inl e, w1) \<Rightarrow> (Inl e, w1)
      | (Inr LimitReached, w1) \<Rightarrow> (Inr None, w1)
      | (Inr (Exhausted pageCount totalArtifactsChecked), w1) \<Rightarrow>
          (Inr None,
           info (''No baseline artifact found for '' @ join '', '' branches
                 @ '' after checking '' @ show_nat totalArtifactsChecked @ '' artifacts (''
                 @ show_nat pageCount @ '' pages)'') w1)
      | (Inr (Found artifact), w1) \<Rightarrow>
          downloadBaselineArtifact ev (artifact_id artifact) ''repo-pagination'' w1)"

text \<open>The body of the outer \<open>try\<close>.\<close>

definition fetch_body ::
  "env \<Rightarrow> string list \<Rightarrow> int \<Rightarrow> world \<Rightarrow> (error + json option) \<times> world" where
  "fetch_body ev branches maxPages w =
     (let (workflowArtifact, w1) =
            (case findBaselineArtifactFromWorkflowRuns ev branches w of
               (Inl e, w0) \<Rightarrow> (None, warning (''Workflow-run lookup failed: '' @ message e) w0)
             | (Inr found, w0) \<Rightarrow> (found, w0))
      in case workflowArtifact of
           None \<Rightarrow> repo_search ev branches maxPages w1
         | Some artifact \<Rightarrow>
             (case downloadBaselineArtifact ev (artifact_id artifact) ''workflow-run'' w1 of
                (Inl e, w2) \<Rightarrow> (Inl e, w2)
              | (Inr (Some stats), w2) \<Rightarrow> (Inr (Some stats), w2)
              | (Inr None, w2) \<Rightarrow>
                  repo_search ev branches maxPages
                    (warning ''Workflow-run baseline download failed; falling back to repo search.''
                       w2)))"

text \<open>
  \<open>maxPagesArg\<close> is the optional third argument, 10 when it is left out. The model starts
  at the outer \<open>try\<close>; \<open>github.getOctokit\<close> and \<open>github.context.repo\<close> before it are
  left out.
\<close>

definition fetchBaselineArtifact ::
  "env \<Rightarrow> string list \<Rightarrow> int option \<Rightarrow> world \<Rightarrow> (error + json option) \<times> world" where
  "fetchBaselineArtifact ev branches maxPagesArg w =
     (let maxPages = (case maxPagesArg of None \<Rightarrow> 10 | Some m \<Rightarrow> m)
      in case fetch_body ev branches maxPages w of
           (Inl e, w1) \<Rightarrow> (Inr None, warning (''Failed to download baseline: '' @ message e) w1)
         | (Inr stats, w1) \<Rightarrow> (Inr stats, w1))"

section \<open>scan.ts: scanDirectory\<close>

text \<open>
  What the walk meets under the output directory: a file with the size \<open>stat\<close> reports, a
  file whose \<open>stat\<close> fails, a directory with its entries, a directory whose \<open>readdir\<close>
  fails, and anything that is neither (a link, a socket).
\<close>

datatype dirent =
  File string nat
| FileStatFails string error
| Directory string "dirent list"
| DirectoryUnreadable string error
| Other string

datatype mode = Gzip | Brotli

text \<open>
  \<open>isAssetFile\<close> (utils.ts) and the compressors are parameters; \<open>now_iso\<close> is
  \<open>new Date().toISOString()\<close>.
\<close>

record scan_env =
  isAssetFile :: "string \<Rightarrow> bool"
  getCompressedSize :: "string \<Rightarrow> mode \<Rightarrow> error + nat"
  now_iso :: string
  GITHUB_SHA :: "string option"

text \<open>
  \<open>walk\<close> over the entries of the directory whose path relative to \<open>distPath\<close> has the
  segments \<open>rel\<close>; \<open>acc\<close> is the array \<open>files\<close>.
\<close>

fun walk :: "scan_env \<Rightarrow> string list \<Rightarrow> dirent list \<Rightarrow> FileStats list \<Rightarrow> error + FileStats list" where
  "walk sv rel [] acc = Inr acc"
| "walk sv rel (Directory n sub # entries) acc =
     (case walk sv (rel @ [n]) sub acc of
        Inl e \<Rightarrow> Inl e
      | Inr acc' \<Rightarrow> walk sv rel entries acc')"
| "walk sv rel (DirectoryUnreadable n e # entries) acc = Inl e"
| "walk sv rel (File n sz # entries) acc =
     (if isAssetFile sv n
      then walk sv rel entries
             (acc @ [\<lparr>path = join ''/'' (rel @ [n]), name = n, fsize = int sz, gzip = 0, brotli = 0\<rparr>])
      else walk sv rel entries acc)"
| "walk sv rel (FileStatFails n e # entries) acc =
     (if isAssetFile sv n then Inl e else walk sv rel entries acc)"
| "walk sv rel (Other n # entries) acc = walk sv rel entries acc"

text \<open>
  The body of a worker for one file, and the pool over all files. The workers take the
  files by index and each file is measured once; the model measures them in index order
  (the interleaving of the workers decides only which rejection is seen first).
\<close>

definition measure_file :: "scan_env \<Rightarrow> string \<Rightarrow> bool \<Rightarrow> bool \<Rightarrow> FileStats \<Rightarrow> error + FileStats" where
  "measure_file sv distPath useGzip useBrotli file =
     (let fullPath = path_join distPath (path file)
      in case (if useGzip
               then (case getCompressedSize sv fullPath Gzip of
                       Inl e \<Rightarrow> Inl e
                     | Inr g \<Rightarrow> Inr (file\<lparr>gzip := int g\<rparr>))
               else Inr file) of
           Inl e \<Rightarrow> Inl e
         | Inr file1 \<Rightarrow>
             if useBrotli
             then (case getCompressedSize sv fullPath Brotli of
                     Inl e \<Rightarrow> Inl e
                   | Inr b \<Rightarrow> Inr (file1\<lparr>brotli := int b\<rparr>))
             else Inr file1)"

fun measure_all ::
  "scan_env \<Rightarrow> string \<Rightarrow> bool \<Rightarrow> bool \<Rightarrow> FileStats list \<Rightarrow> error + FileStats list" where
  "measure_all sv distPath useGzip useBrotli [] = Inr []"
| "measure_all sv distPath useGzip useBrotli (file # rest) =
     (case measure_file sv distPath useGzip useBrotli file of
        Inl e \<Rightarrow> Inl e
      | Inr file' \<Rightarrow>
          (case measure_all sv distPath useGzip useBrotli rest of
             Inl e \<Rightarrow> Inl e
           | Inr rest' \<Rightarrow> Inr (file' # rest')))"

text \<open>\<open>distEntry\<close> is what \<open>distPath\<close> names on disk.\<close>

definition scanDirectory ::
  "scan_env \<Rightarrow> dirent \<Rightarrow> string \<Rightarrow> bool \<Rightarrow> bool \<Rightarrow> error + BundleStats" where
  "scanDirectory sv distEntry distPath useGzip useBrotli =
     (case distEntry of
        Directory n entries \<Rightarrow>
          (case walk sv [] entries [] of
             Inl e \<Rightarrow> Inl e
           | Inr walked \<Rightarrow>
               (case measure_all sv distPath useGzip useBrotli walked of
                  Inl e \<Rightarrow> Inl e
                | Inr fs \<Rightarrow>
                    Inr \<lparr>files = fs,
                         totalSize = foldl (\<lambda>sum f. sum + fsize f) 0 fs,
                         totalGzip = foldl (\<lambda>sum f. sum + gzip f) 0 fs,
                         totalBrotli = foldl (\<lambda>sum f. sum + brotli f) 0 fs,
                         timestamp = now_iso sv,
                         commit = (case GITHUB_SHA sv of
                                     None \<Rightarrow> ''unknown''
                                   | Some sha \<Rightarrow> if sha = [] then ''unknown'' else sha)\<rparr>))
      | DirectoryUnreadable n e \<Rightarrow> Inl e
      | _ \<Rightarrow> Inl (Error (''Directory not found: '' @ distPath)))"

section \<open>Inputs for the examples\<close>

text \<open>A runner at the start of the job: nothing logged, nothing written.\<close>

definition world0 :: world where
  "world0 = \<lparr>wlog = [], slept = [], tick = 0, disk = Map.empty, made_dirs = [], inflated = []\<rparr>"

text \<open>
  A rounding for the examples: to the nearest multiple of \<open>1 / 2 ^ 30\<close>. On the numbers of
  the examples, which are multiples of a quarter, it agrees with the rounding to doubles:
  both leave them as they are.
\<close>

definition example_round :: "real \<Rightarrow> jsnum" where
  "example_round x = Finite (real_of_int (round (x * 2 ^ 30)) / 2 ^ 30)"

text \<open>An output directory with two assets, a picture and a link.\<close>

definition example_scan_env :: scan_env where
  "example_scan_env =
     \<lparr>isAssetFile = (\<lambda>n. drop (length n - 3) n = ''.js'' \<or> drop (length n - 4) n = ''.css''),
      getCompressedSize = (\<lambda>p m. Inr (case m of Gzip \<Rightarrow> 100 | Brotli \<Rightarrow> 80)),
      now_iso = ''2024-01-02T00:00:00.000Z'',
      GITHUB_SHA = Some ''4567def''\<rparr>"

definition example_dist :: dirent where
  "example_dist =
     Directory ''dist''
       [File ''app.js'' 1200,
        Directory ''assets'' [File ''main.css'' 300, File ''logo.png'' 5000],
        Other ''latest'']"

text \<open>
  Three record files: the record of a build with one asset, the empty object, and an
  object with nothing but a commit. \<open>quoted\<close> puts a text between quotation marks.
\<close>

definition quoted :: "string \<Rightarrow> string" where
  "quoted s = CHR 0x22 # s @ [CHR 0x22]"

definition example_record_text :: string where
  "example_record_text =
     ''{'' @ quoted ''files'' @ '':[{'' @ quoted ''path'' @ '':'' @ quoted ''app.js'' @ '',''
       @ quoted ''name'' @ '':'' @ quoted ''app.js'' @ '','' @ quoted ''size'' @ '':1200,''
       @ quoted ''gzip'' @ '':400,'' @ quoted ''brotli'' @ '':350}],''
     @ quoted ''totalSize'' @ '':1200,'' @ quoted ''totalGzip'' @ '':400,''
     @ quoted ''totalBrotli'' @ '':350,''
     @ quoted ''timestamp'' @ '':'' @ quoted ''2024-01-01T00:00:00.000Z'' @ '',''
     @ quoted ''commit'' @ '':'' @ quoted ''0123abcdef'' @ ''}''"

definition example_stats :: json where
  "example_stats =
     JObject
       [(''files'', JArray [JObject [(''path'', JString ''app.js''), (''name'', JString ''app.js''),
                                     (''size'', JNumber 1200), (''gzip'', JNumber 400),
                                     (''brotli'', JNumber 350)]]),
        (''totalSize'', JNumber 1200), (''totalGzip'', JNumber 400),
        (''totalBrotli'', JNumber 350),
        (''timestamp'', JString ''2024-01-01T00:00:00.000Z''),
        (''commit'', JString ''0123abcdef'')]"

definition example_commit_only_text :: string where
  "example_commit_only_text =
     ''{'' @ quoted ''commit'' @ '':'' @ quoted ''abcdefgh'' @ ''}''"

definition example_commit_only :: json where
  "example_commit_only = JObject [(''commit'', JString ''abcdefgh'')]"

text \<open>
  \<open>JSON.parse\<close> on these three texts; the one other record file of the examples is the
  single brace \<open>{\<close>, a text cut short.
\<close>

definition example_parse :: "string \<Rightarrow> error + json" where
  "example_parse content =
     (if content = ''{}'' then Inr (JObject [])
      else if content = example_record_text then Inr example_stats
      else if content = example_commit_only_text then Inr example_commit_only
      else Inl (Error ''Unexpected end of JSON input''))"

text \<open>
  A repository whose workflow \<open>size.yml\<close> has the id 42. On \<open>main\<close> the newest run (11)
  holds only a coverage report and the run before it (10) holds an expired baseline (100)
  and two live ones (101, 102); \<open>master\<close> has one run (20) with a later baseline (200).
  Every download is the same small archive, and its record is the empty object.
\<close>

definition example_artifact :: "nat \<Rightarrow> string \<Rightarrow> bool \<Rightarrow> string \<Rightarrow> ArtifactItem" where
  "example_artifact i n x b =
     \<lparr>artifact_id = i, artifact_name = n, expired = x, head_branch = Some b\<rparr>"

definition example_runs :: "string \<Rightarrow> nat list" where
  "example_runs b = (if b = ''main'' then [11, 10] else if b = ''master'' then [20] else [])"

definition example_artifacts :: "nat \<Rightarrow> ArtifactItem list" where
  "example_artifacts run =
     (if run = 11 then [example_artifact 110 ''coverage'' False ''main'']
      else if run = 10 then [example_artifact 100 ''bundle-stats'' True ''main'',
                             example_artifact 101 ''bundle-stats'' False ''main'',
                             example_artifact 102 ''bundle-stats'' False ''main'']
      else if run = 20 then [example_artifact 200 ''bundle-stats'' False ''master'']
      else [])"

definition example_env :: env where
  "example_env =
     \<lparr>GITHUB_WORKFLOW_REF = Some ''octo/app/.github/workflows/size.yml@refs/heads/main'',
      RUNNER_TEMP = None,
      cwd = ''/home/runner/work/app/app'',
      context_workflow = ''Bundle size'',
      getWorkflow = (\<lambda>t f. if f = ''size.yml'' then Inr 42 else Inl (Error ''Not Found'')),
      listRepoWorkflows = (\<lambda>t. Inr [\<lparr>workflow_id = 42, workflow_name = ''Bundle size''\<rparr>]),
      listWorkflowRuns = (\<lambda>t wid b. Inr (Some (example_runs b))),
      listWorkflowRunArtifacts = (\<lambda>t run. Inr (ObjectWithArtifacts (Some (example_artifacts run)))),
      downloadArtifact = (\<lambda>t i. Inr (BufferData ''PK'')),
      listArtifactsForRepo = (\<lambda>t page. Inr (BareArray [], False)),
      fs_fault = (\<lambda>t. None),
      unzip = (\<lambda>bytes. Inr [\<lparr>entryName = ''bundle-stats.json'', isDirectory = False,
                               header_size = Some 2, getData = Inr ''{}''\<rparr>]),
      json_parse = example_parse,
      number_string = (\<lambda>x. show_int \<lfloor>x\<rfloor>)\<rparr>"

text \<open>The same repository with an endless list of pages of 100 coverage reports.\<close>

definition example_env_many_pages :: env where
  "example_env_many_pages =
     example_env\<lparr>listArtifactsForRepo :=
       (\<lambda>t page. Inr (BareArray (replicate 100 (example_artifact 300 ''coverage'' False ''release'')),
                        True))\<rparr>"

text \<open>
  The same repository where the archive of artifact 101 is empty, the repository-wide
  listing has one page with artifact 102, and the archive holds the record of a build.
\<close>

definition example_record_entry :: zip_entry where
  "example_record_entry =
     \<lparr>entryName = ''bundle-stats.json'', isDirectory = False,
      header_size = Some (length example_record_text), getData = Inr example_record_text\<rparr>"

definition example_env_empty_first :: env where
  "example_env_empty_first =
     example_env\<lparr>downloadArtifact := (\<lambda>t i. Inr (BufferData (if i = 101 then [] else ''PK''))),
                 listArtifactsForRepo :=
                   (\<lambda>t page. Inr (BareArray [example_artifact 102 ''bundle-stats'' False ''main''], False)),
                 unzip := (\<lambda>bytes. Inr [example_record_entry])\<rparr>"

text \<open>
  Two archives: one with an entry that leaves the extraction directory, and one with the
  record of a build and a second entry that brings the declared sizes one byte over
  200 MB.
\<close>

definition example_traversal_entries :: "zip_entry list" where
  "example_traversal_entries =
     [\<lparr>entryName = ''../../etc/passwd'', isDirectory = False, header_size = Some 10,
       getData = Inr ''root::0:0:''\<rparr>,
      \<lparr>entryName = ''bundle-stats.json'', isDirectory = False, header_size = Some 2,
       getData = Inr ''{}''\<rparr>]"

definition example_bomb_entries :: "zip_entry list" where
  "example_bomb_entries =
     [example_record_entry,
      \<lparr>entryName = ''assets/big.bin'', isDirectory = False, header_size = Some 209715008,
       getData = Inl (Error ''not inflated'')\<rparr>]"

definition example_env_bomb :: env where
  "example_env_bomb = example_env\<lparr>unzip := (\<lambda>bytes. Inr example_bomb_entries)\<rparr>"

text \<open>
  The same repository where the archive of artifact 101 is the second of these, and the
  repository-wide listing has one page with artifact 250, uploaded under the same name
  from \<open>main\<close> by another workflow: its archive holds a report and no record file.
\<close>

definition example_report_entry :: zip_entry where
  "example_report_entry =
     \<lparr>entryName = ''report.html'', isDirectory = False, header_size = Some 13,
      getData = Inr ''<html></html>''\<rparr>"

definition example_env_stale :: env where
  "example_env_stale =
     example_env\<lparr>downloadArtifact :=
                   (\<lambda>t i. Inr (BufferData (if i = 101 then ''PK-bomb'' else ''PK-report''))),
                 listArtifactsForRepo :=
                   (\<lambda>t page. Inr (BareArray [example_artifact 250 ''bundle-stats'' False ''main''], False)),
                 unzip := (\<lambda>bytes. if bytes = ''PK-bomb'' then Inr example_bomb_entries
                                   else Inr [example_report_entry])\<rparr>"

text \<open>The same repository where every download is one byte over 50 MB.\<close>

definition example_env_oversized :: env where
  "example_env_oversized =
     example_env\<lparr>downloadArtifact := (\<lambda>t i. Inr (BufferData (replicate 52428801 (CHR ''x''))))\<rparr>"

text \<open>The same repository where the record of every archive has nothing but a commit.\<close>

definition example_env_commit_only :: env where
  "example_env_commit_only =
     example_env\<lparr>unzip := (\<lambda>bytes. Inr [\<lparr>entryName = ''bundle-stats.json'', isDirectory = False,
                                            header_size = Some 21,
                                            getData = Inr example_commit_only_text\<rparr>])\<rparr>"

text \<open>
  The same repository where the archive of artifact 101 is empty and the
  repository-wide listing has one page with artifact 102, whose record is the empty
  object.
\<close>

definition example_env_second_load :: env where
  "example_env_second_load =
     example_env\<lparr>downloadArtifact := (\<lambda>t i. Inr (BufferData (if i = 101 then [] else ''PK''))),
                 listArtifactsForRepo :=
                   (\<lambda>t page. Inr (BareArray [example_artifact 102 ''bundle-stats'' False ''main''], False))\<rparr>"

text \<open>
  What the variants of the example repository share with it: the working directory, the
  temporary directory, a file system without faults, and the platform's \<open>JSON.parse\<close>
  and number printing.
\<close>

definition same_runner :: "env \<Rightarrow> bool" where
  "same_runner E \<longleftrightarrow>
     cwd E = cwd example_env \<and> RUNNER_TEMP E = None \<and> fs_fault E = (\<lambda>t. None)
   \<and> json_parse E = example_parse \<and> number_string E = (\<lambda>x. show_int \<lfloor>x\<rfloor>)"

chapter \<open>Properties\<close>

declare show_nat.simps [simp del] retryOnFail_from.simps [simp del] scan_pages.simps [simp del]

section \<open>Printing numbers\<close>

lemma show_nat_numeral [simp]:
  "show_nat (numeral k) =
     (if (numeral k :: nat) < 10 then [digit (numeral k)]
      else show_nat (numeral k div 10) @ [digit (numeral k mod 10)])"
  by (rule show_nat.simps)

lemma show_nat_digit [simp]: "n < 10 \<Longrightarrow> show_nat n = [digit n]"
  by (subst show_nat.simps) simp

section \<open>The job log\<close>

lemma wlog_warning: "wlog (warning m w) = wlog w @ [Warning m]"
  by (simp add: warning_def)

lemma wlog_info: "wlog (info m w) = wlog w @ [Info m]"
  by (simp add: info_def)

lemma tick_warning [simp]: "tick (warning m w) = tick w"
  and tick_info [simp]: "tick (info m w) = tick w"
  and tick_sleep [simp]: "tick (sleep ms w) = tick w"
  by (simp_all add: warning_def info_def sleep_def)

lemma slept_warning [simp]: "slept (warning m w) = slept w"
  and slept_info [simp]: "slept (info m w) = slept w"
  and slept_sleep [simp]: "slept (sleep ms w) = slept w @ [ms]"
  by (simp_all add: warning_def info_def sleep_def)

lemma tick_backoff [simp]: "tick (backoff operation k w) = tick w"
  and slept_backoff [simp]: "slept (backoff operation k w) = slept w @ [RETRY_BASE_DELAY_MS * 2 ^ k]"
  and wlog_backoff [simp]: "wlog (backoff operation k w) = wlog w @ [Warning (retry_message operation k)]"
  by (simp_all add: backoff_def wlog_warning sleep_def)

section \<open>The record files of the examples\<close>

lemma example_record_length: "length example_record_text = 193"
  by (simp add: example_record_text_def quoted_def)

lemma example_parse_simps:
  "example_parse ''{}'' = Inr (JObject [])"
  "example_parse example_record_text = Inr example_stats"
  "example_parse example_commit_only_text = Inr example_commit_only"
  by (simp_all add: example_parse_def example_record_text_def example_commit_only_text_def
        quoted_def)

lemma example_load_record:
  assumes "json_parse ev = example_parse" and "number_string ev = (\<lambda>x. show_int \<lfloor>x\<rfloor>)"
  shows "load_record ev source example_record_text w
           = (Inr (Some example_stats),
              info (''Baseline loaded ('' @ source @ ''): 400 bytes gzip from commit 0123abc'') w)"
    and "load_record ev source ''{}'' w
           = (Inl (Error ''Cannot read properties of undefined (reading slice)''), w)"
    and "load_record ev source example_commit_only_text w
           = (Inr (Some example_commit_only),
              info (''Baseline loaded ('' @ source
                    @ ''): undefined bytes gzip from commit abcdefg'') w)"
  by (simp_all add: load_record_def assms example_parse_simps example_stats_def
        example_commit_only_def read_property_def slice_0_7_def template_string_def
        show_int_def digit_def)

section \<open>Percentages of calculateDiffMetrics\<close>

text \<open>
  C8. For every baseline and current record and each of the three metrics (size, gzip,
  brotli), the delta is the current total minus the baseline total. When the baseline
  total is positive, the percentage field is the double (delta / baseline total) * 100:
  the quotient rounded to a double, times 100, rounded again. When the baseline total is
  0 the field is the number 0, and not the value of that expression, which would be NaN
  or an infinity: nothing is divided by zero. The field is 0 for a negative baseline
  total too.
\<close>

theorem calculateDiffMetrics_percent:
  "(let m = calculateDiffMetrics rnd current baseline in
      diffSize m = totalSize current - totalSize baseline
    \<and> diffGzip m = totalGzip current - totalGzip baseline
    \<and> diffBrotli m = totalBrotli current - totalBrotli baseline
    \<and> (0 < totalSize baseline \<longrightarrow>
         diffPercentSize m
           = js_times rnd (rnd (real_of_int (diffSize m) / real_of_int (totalSize baseline))) 100)
    \<and> (totalSize baseline = 0 \<longrightarrow>
         diffPercentSize m = Finite 0
       \<and> \<not> isFinite (js_times rnd (js_divide rnd (real_of_int (diffSize m))
                                      (real_of_int (totalSize baseline))) 100))
    \<and> (totalSize baseline < 0 \<longrightarrow> diffPercentSize m = Finite 0)
    \<and> (0 < totalGzip baseline \<longrightarrow>
         diffPercentGzip m
           = js_times rnd (rnd (real_of_int (diffGzip m) / real_of_int (totalGzip baseline))) 100)
    \<and> (totalGzip baseline = 0 \<longrightarrow>
         diffPercentGzip m = Finite 0
       \<and> \<not> isFinite (js_times rnd (js_divide rnd (real_of_int (diffGzip m))
                                      (real_of_int (totalGzip baseline))) 100))
    \<and> (totalGzip baseline < 0 \<longrightarrow> diffPercentGzip m = Finite 0)
    \<and> (0 < totalBrotli baseline \<longrightarrow>
         diffPercentBrotli m
           = js_times rnd (rnd (real_of_int (diffBrotli m) / real_of_int (totalBrotli baseline))) 100)
    \<and> (totalBrotli baseline = 0 \<longrightarrow>
         diffPercentBrotli m = Finite 0
       \<and> \<not> isFinite (js_times rnd (js_divide rnd (real_of_int (diffBrotli m))
                                      (real_of_int (totalBrotli baseline))) 100))
    \<and> (totalBrotli baseline < 0 \<longrightarrow> diffPercentBrotli m = Finite 0))"
  by (simp add: calculateDiffMetrics_def js_divide_def Let_def)

lemma example_round_quarters [simp]:
  "example_round (1 / 4) = Finite (1 / 4)" "example_round 25 = Finite 25"
  "example_round (- (1 / 4)) = Finite (- (1 / 4))" "example_round (- 25) = Finite (- 25)"
  by (simp_all add: example_round_def)

theorem calculateDiffMetrics_percent_witness:
  "(let baseline = \<lparr>files = [], totalSize = 200000, totalGzip = 0, totalBrotli = - 80000,
                     timestamp = ''2024-01-01T00:00:00.000Z'', commit = ''0123abc''\<rparr>;
        current = \<lparr>files = [], totalSize = 250000, totalGzip = 105000, totalBrotli = 60000,
                    timestamp = ''2024-01-02T00:00:00.000Z'', commit = ''4567def''\<rparr>;
        m = calculateDiffMetrics example_round current baseline
    in (0::int) < totalSize baseline \<and> totalGzip baseline = 0 \<and> totalBrotli baseline < (0::int)
     \<and> diffPercentSize m = Finite 25
     \<and> diffPercentGzip m = Finite 0
     \<and> js_times example_round (js_divide example_round 105000 0) 100 = PosInfinity
     \<and> diffPercentBrotli m = Finite 0)
   \<and> (let baseline = \<lparr>files = [], totalSize = 0, totalGzip = - 1, totalBrotli = 80000,
                     timestamp = ''2024-01-01T00:00:00.000Z'', commit = ''0123abc''\<rparr>;
        current = \<lparr>files = [], totalSize = 0, totalGzip = 105000, totalBrotli = 60000,
                    timestamp = ''2024-01-02T00:00:00.000Z'', commit = ''4567def''\<rparr>;
        m = calculateDiffMetrics example_round current baseline
    in totalSize baseline = (0::int) \<and> totalGzip baseline < (0::int) \<and> (0::int) < totalBrotli baseline
     \<and> diffPercentSize m = Finite 0
     \<and> js_times example_round (js_divide example_round 0 0) 100 = NaN
     \<and> diffPercentGzip m = Finite 0
     \<and> diffPercentBrotli m = Finite (- 25))
   \<and> (let baseline = \<lparr>files = [], totalSize = - 4, totalGzip = 80000, totalBrotli = 0,
                     timestamp = ''2024-01-01T00:00:00.000Z'', commit = ''0123abc''\<rparr>;
        current = \<lparr>files = [], totalSize = 250000, totalGzip = 100000, totalBrotli = 0,
                    timestamp = ''2024-01-02T00:00:00.000Z'', commit = ''4567def''\<rparr>;
        m = calculateDiffMetrics example_round current baseline
    in totalSize baseline < (0::int) \<and> (0::int) < totalGzip baseline \<and> totalBrotli baseline = (0::int)
     \<and> diffPercentSize m = Finite 0
     \<and> diffPercentGzip m = Finite 25
     \<and> diffPercentBrotli m = Finite 0)"
  using calculateDiffMetrics_percent
    [of example_round
        "\<lparr>files = [], totalSize = 250000, totalGzip = 105000, totalBrotli = 60000,
          timestamp = ''2024-01-02T00:00:00.000Z'', commit = ''4567def''\<rparr>"
        "\<lparr>files = [], totalSize = 200000, totalGzip = 0, totalBrotli = - 80000,
          timestamp = ''2024-01-01T00:00:00.000Z'', commit = ''0123abc''\<rparr>"]
    calculateDiffMetrics_percent
    [of example_round
        "\<lparr>files = [], totalSize = 0, totalGzip = 105000, totalBrotli = 60000,
          timestamp = ''2024-01-02T00:00:00.000Z'', commit = ''4567def''\<rparr>"
        "\<lparr>files = [], totalSize = 0, totalGzip = - 1, totalBrotli = 80000,
          timestamp = ''2024-01-01T00:00:00.000Z'', commit = ''0123abc''\<rparr>"]
    calculateDiffMetrics_percent
    [of example_round
        "\<lparr>files = [], totalSize = 250000, totalGzip = 100000, totalBrotli = 0,
          timestamp = ''2024-01-02T00:00:00.000Z'', commit = ''4567def''\<rparr>"
        "\<lparr>files = [], totalSize = - 4, totalGzip = 80000, totalBrotli = 0,
          timestamp = ''2024-01-01T00:00:00.000Z'', commit = ''0123abc''\<rparr>"]
  by (simp add: Let_def js_divide_def)

section \<open>Numeric threshold inputs\<close>

lemma readNumberInput_cases:
  "readNumberInput pf gi key msg =
     (if gi key = [] then Inr None
      else if isFinite (pf (gi key)) then Inr (Some (case pf (gi key) of Finite x \<Rightarrow> x))
      else Inl (Error msg))"
  by (cases "pf (gi key)") (simp_all add: readNumberInput_def)

lemma readNumberInput_ok:
  assumes "gi k = [] \<or> isFinite (pf (gi k))"
  shows "\<exists>r. readNumberInput pf gi k msg = Inr r
             \<and> (\<forall>y. gi k \<noteq> [] \<and> pf (gi k) = Finite y \<longrightarrow> r = Some y)"
  using assms by (auto simp: readNumberInput_cases)

lemma sanitize_negative:
  "y < 0 \<Longrightarrow> sanitizeNonNegative (Some y) key w
     = (None, warning (key @ '' cannot be negative; ignoring.'') w)"
  by (simp add: sanitizeNonNegative_def)

lemma sanitize_log_mono:
  "set (wlog w) \<subseteq> set (wlog (snd (sanitizeNonNegative v key w)))"
  by (cases v) (auto simp: sanitizeNonNegative_def wlog_warning)

lemma sanitize_negative_logged:
  "y < 0 \<Longrightarrow> Warning (key @ '' cannot be negative; ignoring.'')
      \<in> set (wlog (snd (sanitizeNonNegative (Some y) key w)))"
  by (simp add: sanitize_negative wlog_warning)

lemma thresholds_ok:
  assumes b: "readNumberInput pf gi ''budget-max-increase-kb''
             ''budget-max-increase-kb must be a number (e.g., 10 or 0.5)'' = Inr rb"
    and wa: "readNumberInput pf gi ''warn-above-kb''
             ''warn-above-kb must be a number (e.g., 50)'' = Inr rw"
    and f: "readNumberInput pf gi ''fail-above-kb''
             ''fail-above-kb must be a number (e.g., 100)'' = Inr rf"
  shows "readActionInputs_thresholds pf gi w =
     (Inr \<lparr>budgetMaxIncreaseKb = fst (sanitizeNonNegative rb ''budget-max-increase-kb'' w),
           warnAboveKb = fst (sanitizeNonNegative rw ''warn-above-kb''
                             (snd (sanitizeNonNegative rb ''budget-max-increase-kb'' w))),
           failAboveKb = fst (sanitizeNonNegative rf ''fail-above-kb''
                             (snd (sanitizeNonNegative rw ''warn-above-kb''
                             (snd (sanitizeNonNegative rb ''budget-max-increase-kb'' w)))))\<rparr>,
      snd (sanitizeNonNegative rf ''fail-above-kb''
                             (snd (sanitizeNonNegative rw ''warn-above-kb''
                             (snd (sanitizeNonNegative rb ''budget-max-increase-kb'' w))))))"
  unfolding readActionInputs_thresholds_def b wa f
  by (simp add: split_beta Let_def)

text \<open>
  C9. For each of the inputs budget-max-increase-kb, warn-above-kb and fail-above-kb:
  an input that is set and does not parse to a finite number makes the read throw its
  error message, and the reading of the three inputs throws (a fatal error of the run);
  an input that parses to a negative number is read without error, and sanitizing it
  logs the warning "<key> cannot be negative; ignoring." and yields null. When all three
  inputs are unset or parse to finite numbers the inputs are read without error, every
  negative one is null in the result and its warning is in the log.
\<close>

theorem threshold_inputs_negative_ignored_unparseable_fatal:
  "(gi key \<noteq> [] \<and> \<not> isFinite (pf (gi key)) \<longrightarrow>
      readNumberInput pf gi key msg = Inl (Error msg))
   \<and> (gi key \<noteq> [] \<and> pf (gi key) = Finite x \<and> x < 0 \<longrightarrow>
        readNumberInput pf gi key msg = Inr (Some x)
      \<and> sanitizeNonNegative (Some x) key w = (None, warning (key @ '' cannot be negative; ignoring.'') w))
   \<and> ((\<exists>k \<in> {''budget-max-increase-kb'', ''warn-above-kb'', ''fail-above-kb''}.
          gi k \<noteq> [] \<and> \<not> isFinite (pf (gi k))) \<longrightarrow>
        (\<exists>e. readActionInputs_thresholds pf gi w = (Inl e, w)))
   \<and> ((\<forall>k \<in> {''budget-max-increase-kb'', ''warn-above-kb'', ''fail-above-kb''}.
          gi k = [] \<or> isFinite (pf (gi k))) \<longrightarrow>
        (\<exists>th w'. readActionInputs_thresholds pf gi w = (Inr th, w')
           \<and> (\<forall>y. gi ''budget-max-increase-kb'' \<noteq> [] \<and> pf (gi ''budget-max-increase-kb'') = Finite y \<and> y < 0 \<longrightarrow>
                 budgetMaxIncreaseKb th = None
               \<and> Warning ''budget-max-increase-kb cannot be negative; ignoring.'' \<in> set (wlog w'))
           \<and> (\<forall>y. gi ''warn-above-kb'' \<noteq> [] \<and> pf (gi ''warn-above-kb'') = Finite y \<and> y < 0 \<longrightarrow>
                 warnAboveKb th = None
               \<and> Warning ''warn-above-kb cannot be negative; ignoring.'' \<in> set (wlog w'))
           \<and> (\<forall>y. gi ''fail-above-kb'' \<noteq> [] \<and> pf (gi ''fail-above-kb'') = Finite y \<and> y < 0 \<longrightarrow>
                 failAboveKb th = None
               \<and> Warning ''fail-above-kb cannot be negative; ignoring.'' \<in> set (wlog w'))))"
  (is "?A \<and> ?B \<and> ?C \<and> ?D")
proof -
  have A: ?A by (simp add: readNumberInput_cases)
  have B: ?B by (simp add: readNumberInput_cases sanitize_negative)
  have C: ?C by (auto simp: readActionInputs_thresholds_def readNumberInput_cases)
  have D: ?D
  proof
    assume ok: "\<forall>k \<in> {''budget-max-increase-kb'', ''warn-above-kb'', ''fail-above-kb''}.
          gi k = [] \<or> isFinite (pf (gi k))"
    let ?kb = "''budget-max-increase-kb''" and ?kw = "''warn-above-kb''" and ?kf = "''fail-above-kb''"
    from ok obtain rb where rb: "readNumberInput pf gi ?kb
             ''budget-max-increase-kb must be a number (e.g., 10 or 0.5)'' = Inr rb"
      and rb': "\<forall>y. gi ?kb \<noteq> [] \<and> pf (gi ?kb) = Finite y \<longrightarrow> rb = Some y"
      using readNumberInput_ok [of gi ?kb pf] by blast
    from ok obtain rw where rw: "readNumberInput pf gi ?kw
             ''warn-above-kb must be a number (e.g., 50)'' = Inr rw"
      and rw': "\<forall>y. gi ?kw \<noteq> [] \<and> pf (gi ?kw) = Finite y \<longrightarrow> rw = Some y"
      using readNumberInput_ok [of gi ?kw pf] by blast
    from ok obtain rf where rf: "readNumberInput pf gi ?kf
             ''fail-above-kb must be a number (e.g., 100)'' = Inr rf"
      and rf': "\<forall>y. gi ?kf \<noteq> [] \<and> pf (gi ?kf) = Finite y \<longrightarrow> rf = Some y"
      using readNumberInput_ok [of gi ?kf pf] by blast
    define w1 where "w1 = snd (sanitizeNonNegative rb ?kb w)"
    define w2 where "w2 = snd (sanitizeNonNegative rw ?kw w1)"
    define w3 where "w3 = snd (sanitizeNonNegative rf ?kf w2)"
    define th where "th = \<lparr>budgetMaxIncreaseKb = fst (sanitizeNonNegative rb ?kb w),
             warnAboveKb = fst (sanitizeNonNegative rw ?kw w1),
             failAboveKb = fst (sanitizeNonNegative rf ?kf w2)\<rparr>"
    have m12: "set (wlog w1) \<subseteq> set (wlog w2)" and m23: "set (wlog w2) \<subseteq> set (wlog w3)"
      unfolding w2_def w3_def by (rule sanitize_log_mono)+
    have eq: "readActionInputs_thresholds pf gi w = (Inr th, w3)"
      unfolding th_def w1_def w2_def w3_def by (rule thresholds_ok [OF rb rw rf])
    have pb: "budgetMaxIncreaseKb th = None
         \<and> Warning ''budget-max-increase-kb cannot be negative; ignoring.'' \<in> set (wlog w3)"
      if "gi ?kb \<noteq> [] \<and> pf (gi ?kb) = Finite y \<and> y < 0" for y
    proof -
      from that rb' have r: "rb = Some y" and neg: "y < 0" by auto
      have "Warning (?kb @ '' cannot be negative; ignoring.'') \<in> set (wlog w1)"
        unfolding w1_def r by (rule sanitize_negative_logged [OF neg])
      with m12 m23 show ?thesis by (auto simp: th_def r sanitize_negative [OF neg])
    qed
    have pw: "warnAboveKb th = None
         \<and> Warning ''warn-above-kb cannot be negative; ignoring.'' \<in> set (wlog w3)"
      if "gi ?kw \<noteq> [] \<and> pf (gi ?kw) = Finite y \<and> y < 0" for y
    proof -
      from that rw' have r: "rw = Some y" and neg: "y < 0" by auto
      have "Warning (?kw @ '' cannot be negative; ignoring.'') \<in> set (wlog w2)"
        unfolding w2_def r by (rule sanitize_negative_logged [OF neg])
      with m23 show ?thesis by (auto simp: th_def r sanitize_negative [OF neg])
    qed
    have pf: "failAboveKb th = None
         \<and> Warning ''fail-above-kb cannot be negative; ignoring.'' \<in> set (wlog w3)"
      if "gi ?kf \<noteq> [] \<and> pf (gi ?kf) = Finite y \<and> y < 0" for y
    proof -
      from that rf' have r: "rf = Some y" and neg: "y < 0" by auto
      have "Warning (?kf @ '' cannot be negative; ignoring.'') \<in> set (wlog w3)"
        unfolding w3_def r by (rule sanitize_negative_logged [OF neg])
      then show ?thesis by (auto simp: th_def r sanitize_negative [OF neg])
    qed
    from eq pb pw pf show "\<exists>th w'. readActionInputs_thresholds pf gi w = (Inr th, w')
           \<and> (\<forall>y. gi ?kb \<noteq> [] \<and> pf (gi ?kb) = Finite y \<and> y < 0 \<longrightarrow>
                 budgetMaxIncreaseKb th = None
               \<and> Warning ''budget-max-increase-kb cannot be negative; ignoring.'' \<in> set (wlog w'))
           \<and> (\<forall>y. gi ?kw \<noteq> [] \<and> pf (gi ?kw) = Finite y \<and> y < 0 \<longrightarrow>
                 warnAboveKb th = None
               \<and> Warning ''warn-above-kb cannot be negative; ignoring.'' \<in> set (wlog w'))
           \<and> (\<forall>y. gi ?kf \<noteq> [] \<and> pf (gi ?kf) = Finite y \<and> y < 0 \<longrightarrow>
                 failAboveKb th = None
               \<and> Warning ''fail-above-kb cannot be negative; ignoring.'' \<in> set (wlog w'))"
      by blast
  qed
  from A B C D show ?thesis by blast
qed

theorem threshold_inputs_witness:
  "(let pf = (\<lambda>s. if s = ''-5'' then Finite (- 5) else NaN);
        gi_bad = (\<lambda>k. if k = ''fail-above-kb'' then ''ten'' else []);
        gi_neg = (\<lambda>k. if k = ''warn-above-kb'' then ''-5'' else [])
    in readNumberInput pf gi_bad ''fail-above-kb'' ''fail-above-kb must be a number (e.g., 100)''
         = Inl (Error ''fail-above-kb must be a number (e.g., 100)'')
     \<and> (\<exists>e. readActionInputs_thresholds pf gi_bad world0 = (Inl e, world0))
     \<and> readNumberInput pf gi_neg ''warn-above-kb'' ''warn-above-kb must be a number (e.g., 50)''
         = Inr (Some (- 5))
     \<and> sanitizeNonNegative (Some (- 5)) ''warn-above-kb'' world0
         = (None, warning ''warn-above-kb cannot be negative; ignoring.'' world0)
     \<and> (\<exists>th w'. readActionInputs_thresholds pf gi_neg world0 = (Inr th, w')
           \<and> warnAboveKb th = None
           \<and> Warning ''warn-above-kb cannot be negative; ignoring.'' \<in> set (wlog w')))"
  using threshold_inputs_negative_ignored_unparseable_fatal
          [of "\<lambda>k. if k = ''fail-above-kb'' then ''ten'' else []" "''fail-above-kb''"
              "\<lambda>s. if s = ''-5'' then Finite (- 5) else NaN"
              "''fail-above-kb must be a number (e.g., 100)''" 0 world0]
        threshold_inputs_negative_ignored_unparseable_fatal
          [of "\<lambda>k. if k = ''warn-above-kb'' then ''-5'' else []" "''warn-above-kb''"
              "\<lambda>s. if s = ''-5'' then Finite (- 5) else NaN"
              "''warn-above-kb must be a number (e.g., 50)''" "- 5" world0]
  by (simp add: Let_def)

section \<open>Totals of scanDirectory\<close>

lemma foldl_plus_sum_list:
  "foldl (\<lambda>sum f. sum + g f) a xs = (a::int) + sum_list (map g xs)"
  by (induction xs arbitrary: a) simp_all

text \<open>
  C7. Every record that scanDirectory returns has totalSize, totalGzip and totalBrotli
  equal to the sums of the fields size, gzip and brotli over its files.
\<close>

theorem scanDirectory_totals:
  "scanDirectory sv distEntry distPath useGzip useBrotli = Inr stats \<Longrightarrow>
     totalSize stats = sum_list (map fsize (files stats))
   \<and> totalGzip stats = sum_list (map gzip (files stats))
   \<and> totalBrotli stats = sum_list (map brotli (files stats))"
  by (auto simp: scanDirectory_def foldl_plus_sum_list split: dirent.splits sum.splits)

lemma example_scan:
  "scanDirectory example_scan_env example_dist ''dist'' True True =
     Inr \<lparr>files = [\<lparr>path = ''app.js'', name = ''app.js'', fsize = 1200, gzip = 100, brotli = 80\<rparr>,
                   \<lparr>path = ''assets/main.css'', name = ''main.css'', fsize = 300, gzip = 100, brotli = 80\<rparr>],
           totalSize = 1500, totalGzip = 200, totalBrotli = 160,
           timestamp = ''2024-01-02T00:00:00.000Z'', commit = ''4567def''\<rparr>"
  by (simp add: scanDirectory_def example_scan_env_def example_dist_def measure_file_def)

theorem scanDirectory_totals_witness:
  "scanDirectory example_scan_env example_dist ''dist'' True True =
     Inr \<lparr>files = [\<lparr>path = ''app.js'', name = ''app.js'', fsize = 1200, gzip = 100, brotli = 80\<rparr>,
                   \<lparr>path = ''assets/main.css'', name = ''main.css'', fsize = 300, gzip = 100, brotli = 80\<rparr>],
           totalSize = 1500, totalGzip = 200, totalBrotli = 160,
           timestamp = ''2024-01-02T00:00:00.000Z'', commit = ''4567def''\<rparr>
   \<and> (1500::int) = sum_list (map fsize
          [\<lparr>path = ''app.js'', name = ''app.js'', fsize = 1200, gzip = 100, brotli = 80\<rparr>,
           \<lparr>path = ''assets/main.css'', name = ''main.css'', fsize = 300, gzip = 100, brotli = 80\<rparr>])
   \<and> (200::int) = sum_list (map gzip
          [\<lparr>path = ''app.js'', name = ''app.js'', fsize = 1200, gzip = 100, brotli = 80\<rparr>,
           \<lparr>path = ''assets/main.css'', name = ''main.css'', fsize = 300, gzip = 100, brotli = 80\<rparr>])
   \<and> (160::int) = sum_list (map brotli
          [\<lparr>path = ''app.js'', name = ''app.js'', fsize = 1200, gzip = 100, brotli = 80\<rparr>,
           \<lparr>path = ''assets/main.css'', name = ''main.css'', fsize = 300, gzip = 100, brotli = 80\<rparr>])"
  using scanDirectory_totals [OF example_scan] example_scan by simp

section \<open>The retry policy\<close>

text \<open>Three attempts at most: the loop of \<open>retryOnFail\<close> written out.\<close>

lemma retryOnFail_unfold:
  "retryOnFail fn operation w =
     (case fn w of
        (Inr v, w1) \<Rightarrow> (Inr v, w1)
      | (Inl e1, w1) \<Rightarrow>
          (case fn (backoff operation 0 w1) of
             (Inr v, w2) \<Rightarrow> (Inr v, w2)
           | (Inl e2, w2) \<Rightarrow> fn (backoff operation (Suc 0) w2)))"
proof -
  have third: "retryOnFail_from (Suc (Suc 0)) fn operation u = fn u" for u
    by (subst retryOnFail_from.simps)
       (auto simp: RETRY_COUNT_def split: prod.splits sum.splits)
  have second: "retryOnFail_from (Suc 0) fn operation u =
      (case fn u of (Inr v, w2) \<Rightarrow> (Inr v, w2)
       | (Inl e2, w2) \<Rightarrow> fn (backoff operation (Suc 0) w2))" for u
    by (subst retryOnFail_from.simps)
       (simp add: RETRY_COUNT_def third backoff_def retry_message_def Let_def
             split: prod.splits sum.splits)
  show ?thesis
    unfolding retryOnFail_def
    by (subst retryOnFail_from.simps)
       (simp add: RETRY_COUNT_def second backoff_def retry_message_def Let_def
             split: prod.splits sum.splits)
qed

text \<open>
  C6. A remote call wrapped in retryOnFail is attempted n times, n being 1, 2 or 3: the
  attempts before the last all failed, the result is the outcome of the last attempt,
  and an error is returned only after 3 attempts (it is the error of the third). Between
  the attempts the call sleeps 1000 ms, then 2000 ms (1000 * 2^k after attempt k), each
  sleep announced by a warning.
\<close>

theorem retryOnFail_bounded:
  assumes "retryOnFail (api_call endpoint) operation w = (r, w')"
  shows "\<exists>n \<in> {1, 2, 3}.
           tick w' = tick w + n
         \<and> (\<forall>k < n - 1. isl (endpoint (tick w + k)))
         \<and> r = endpoint (tick w + n - 1)
         \<and> (isl r \<longrightarrow> n = 3)
         \<and> slept w' = slept w @ map (\<lambda>k. 1000 * 2 ^ k) [0..<n - 1]
         \<and> wlog w' = wlog w @ map (\<lambda>k. Warning (retry_message operation k)) [0..<n - 1]"
proof (cases "endpoint (tick w)")
  case (Inr v)
  with assms have "r = Inr v" and "w' = w\<lparr>tick := tick w + 1\<rparr>"
    by (simp_all add: retryOnFail_unfold api_call_def)
  with Inr show ?thesis
    by (intro bexI [of _ 1]) simp_all
next
  case e1: (Inl e1)
  show ?thesis
  proof (cases "endpoint (tick w + 1)")
    case (Inr v)
    with assms e1 have "r = Inr v"
      and "w' = (backoff operation 0 (w\<lparr>tick := tick w + 1\<rparr>))\<lparr>tick := tick w + 2\<rparr>"
      by (auto simp: retryOnFail_unfold api_call_def)
    with Inr e1 show ?thesis
      by (intro bexI [of _ 2]) (simp_all add: RETRY_BASE_DELAY_MS_def)
  next
    case e2: (Inl e2)
    have upt2: "[0..<2] = [0, Suc 0]" by (simp add: upt_rec)
    from assms e1 e2 have "r = endpoint (tick w + 2)"
      and "w' = (backoff operation (Suc 0) ((backoff operation 0 (w\<lparr>tick := tick w + 1\<rparr>))
                   \<lparr>tick := tick w + 2\<rparr>))\<lparr>tick := tick w + 3\<rparr>"
      by (auto simp: retryOnFail_unfold api_call_def)
    with e1 e2 show ?thesis
      by (intro bexI [of _ 3]) (simp_all add: RETRY_BASE_DELAY_MS_def upt2 less_Suc_eq numeral_2_eq_2)
  qed
qed

lemma example_retry:
  "retryOnFail (api_call (\<lambda>t. if t = 2 then Inl (Error ''third failure'')
                               else (Inl (Error ''earlier failure'') :: error + payload)))
       ''downloadArtifact'' world0
   = (Inl (Error ''third failure''),
      world0\<lparr>wlog := [Warning ''downloadArtifact failed, retrying in 1000ms (1/3)'',
                       Warning ''downloadArtifact failed, retrying in 2000ms (2/3)''],
             slept := [1000, 2000], tick := 3\<rparr>)"
  by (simp add: retryOnFail_unfold api_call_def backoff_def retry_message_def world0_def
        warning_def sleep_def RETRY_BASE_DELAY_MS_def RETRY_COUNT_def digit_def)

theorem retryOnFail_bounded_witness:
  "retryOnFail (api_call (\<lambda>t. if t = 2 then Inl (Error ''third failure'')
                               else (Inl (Error ''earlier failure'') :: error + payload)))
       ''downloadArtifact'' world0
   = (Inl (Error ''third failure''),
      world0\<lparr>wlog := [Warning ''downloadArtifact failed, retrying in 1000ms (1/3)'',
                       Warning ''downloadArtifact failed, retrying in 2000ms (2/3)''],
             slept := [1000, 2000], tick := 3\<rparr>)
   \<and> (\<exists>n \<in> {1, 2, 3}.
         tick (world0\<lparr>wlog := [Warning ''downloadArtifact failed, retrying in 1000ms (1/3)'',
                       Warning ''downloadArtifact failed, retrying in 2000ms (2/3)''],
             slept := [1000, 2000], tick := 3\<rparr>) = tick world0 + n
       \<and> (isl (Inl (Error ''third failure'') :: error + payload) \<longrightarrow> n = 3)
       \<and> slept (world0\<lparr>wlog := [Warning ''downloadArtifact failed, retrying in 1000ms (1/3)'',
                       Warning ''downloadArtifact failed, retrying in 2000ms (2/3)''],
             slept := [1000, 2000], tick := 3\<rparr>)
           = slept world0 @ map (\<lambda>k. 1000 * 2 ^ k) [0..<n - 1])"
  using retryOnFail_bounded [OF example_retry] example_retry by blast

section \<open>Order of the targeted lookup\<close>

lemma retryOnFail_first_ok:
  "endpoint (tick w) = Inr v \<Longrightarrow>
     retryOnFail (api_call endpoint) operation w = (Inr v, w\<lparr>tick := Suc (tick w)\<rparr>)"
  by (simp add: retryOnFail_unfold api_call_def)

lemma find_append_first:
  "find P (xs @ ys) = (case find P xs of Some x \<Rightarrow> Some x | None \<Rightarrow> find P ys)"
  by (induction xs) simp_all

lemma search_runs_stable:
  assumes "\<And>t run. run \<in> set runs \<Longrightarrow>
             \<exists>data. listWorkflowRunArtifacts ev t run = Inr data \<and> extractArtifacts data = artifacts_of run"
  shows "fst (search_runs ev branch runs w) =
           Inr (find is_baseline (concat (map artifacts_of runs)))"
  using assms
proof (induction runs arbitrary: w)
  case Nil
  then show ?case by simp
next
  case (Cons run runs)
  from Cons.prems [of run "tick w"] obtain data
    where d: "listWorkflowRunArtifacts ev (tick w) run = Inr data"
      and x: "extractArtifacts data = artifacts_of run" by auto
  have call: "retryOnFail (api_call (\<lambda>t. listWorkflowRunArtifacts ev t run))
                ''listWorkflowRunArtifacts'' w = (Inr data, w\<lparr>tick := Suc (tick w)\<rparr>)"
    by (rule retryOnFail_first_ok) (simp add: d)
  show ?case
  proof (cases "find is_baseline (artifacts_of run)")
    case None
    have "fst (search_runs ev branch runs (w\<lparr>tick := Suc (tick w)\<rparr>)) =
            Inr (find is_baseline (concat (map artifacts_of runs)))"
      by (rule Cons.IH) (simp add: Cons.prems)
    with None show ?thesis
      by (simp add: call x find_append_first)
  next
    case (Some item)
    then show ?thesis
      by (simp add: call x find_append_first)
  qed
qed

lemma search_branches_stable:
  assumes "\<And>t b. b \<in> set branches \<Longrightarrow>
             \<exists>r. listWorkflowRuns ev t workflowId b = Inr r
                \<and> (case r of None \<Rightarrow> [] | Some rs \<Rightarrow> rs) = runs_of b"
    and "\<And>t b run. b \<in> set branches \<Longrightarrow> run \<in> set (runs_of b) \<Longrightarrow>
             \<exists>data. listWorkflowRunArtifacts ev t run = Inr data \<and> extractArtifacts data = artifacts_of run"
  shows "fst (search_branches ev workflowId branches w) =
           Inr (find is_baseline
                  (concat (map (\<lambda>branch. concat (map artifacts_of (runs_of branch))) branches)))"
  using assms
proof (induction branches arbitrary: w)
  case Nil
  then show ?case by simp
next
  case (Cons b branches)
  from Cons.prems(1) [of b "tick w"] obtain r
    where r: "listWorkflowRuns ev (tick w) workflowId b = Inr r"
      and rs: "(case r of None \<Rightarrow> [] | Some rs \<Rightarrow> rs) = runs_of b" by auto
  let ?w1 = "w\<lparr>tick := Suc (tick w)\<rparr>"
  have call: "retryOnFail (api_call (\<lambda>t. listWorkflowRuns ev t workflowId b))
                ''listWorkflowRuns'' w = (Inr r, ?w1)"
    by (rule retryOnFail_first_ok) (simp add: r)
  have IH: "fst (search_branches ev workflowId branches u) =
           Inr (find is_baseline
                  (concat (map (\<lambda>branch. concat (map artifacts_of (runs_of branch))) branches)))" for u
  proof (rule Cons.IH)
    show "\<exists>r. listWorkflowRuns ev t workflowId b' = Inr r
                \<and> (case r of None \<Rightarrow> [] | Some rs \<Rightarrow> rs) = runs_of b'"
      if "b' \<in> set branches" for t b'
      using that Cons.prems(1) [of b' t] by simp
    show "\<exists>data. listWorkflowRunArtifacts ev t run = Inr data \<and> extractArtifacts data = artifacts_of run"
      if "b' \<in> set branches" "run \<in> set (runs_of b')" for t b' run
      using that Cons.prems(2) [of b' run t] by simp
  qed
  have runs: "fst (search_runs ev b (runs_of b) ?w1) =
           Inr (find is_baseline (concat (map artifacts_of (runs_of b))))"
  proof (rule search_runs_stable)
    show "\<exists>data. listWorkflowRunArtifacts ev t run = Inr data \<and> extractArtifacts data = artifacts_of run"
      if "run \<in> set (runs_of b)" for t run
      using that Cons.prems(2) [of b run t] by simp
  qed
  show ?case
  proof (cases "runs_of b = []")
    case True
    with IH show ?thesis by (simp add: call rs)
  next
    case False
    obtain res w2 where s: "search_runs ev b (runs_of b) ?w1 = (res, w2)"
      by (cases "search_runs ev b (runs_of b) ?w1")
    with runs have res: "res = Inr (find is_baseline (concat (map artifacts_of (runs_of b))))"
      by simp
    show ?thesis
    proof (cases "find is_baseline (concat (map artifacts_of (runs_of b)))")
      case None
      with False IH [of w2] show ?thesis
        by (simp add: call rs s res find_append_first)
    next
      case (Some item)
      with False show ?thesis
        by (simp add: call rs s res find_append_first)
    qed
  qed
qed

text \<open>
  C5. When the workflow id is resolved and the store answers every listing (the same way
  whenever it is asked), the targeted lookup returns the first non-expired artifact named
  bundle-stats in the order: branches as given, within a branch the runs as the store
  lists them, within a run the artifacts as listed; null when there is none. Nothing
  else about the artifacts (id, age, branch of a later candidate) enters the choice.
\<close>

theorem workflow_run_lookup_priority_order:
  assumes "resolveWorkflowId ev w = (Inr (Some workflowId), w1)" and "workflowId \<noteq> 0"
    and "\<forall>t. \<forall>b \<in> set branches.
           \<exists>r. listWorkflowRuns ev t workflowId b = Inr r
              \<and> (case r of None \<Rightarrow> [] | Some rs \<Rightarrow> rs) = runs_of b"
    and "\<forall>t. \<forall>b \<in> set branches. \<forall>run \<in> set (runs_of b).
           \<exists>data. listWorkflowRunArtifacts ev t run = Inr data \<and> extractArtifacts data = artifacts_of run"
  shows "fst (findBaselineArtifactFromWorkflowRuns ev branches w) =
           Inr (first_match_in_priority_order runs_of artifacts_of branches)"
proof -
  have "fst (search_branches ev workflowId branches w1) =
           Inr (find is_baseline
                  (concat (map (\<lambda>branch. concat (map artifacts_of (runs_of branch))) branches)))"
    by (rule search_branches_stable) (use assms(3,4) in blast)+
  moreover have "is_baseline = (\<lambda>item. artifact_name item = ''bundle-stats'' \<and> \<not> expired item)"
    by (simp add: is_baseline_def ARTIFACT_NAME_def fun_eq_iff)
  ultimately show ?thesis
    using assms(1,2)
    by (simp add: findBaselineArtifactFromWorkflowRuns_def first_match_in_priority_order_def)
qed

lemma example_workflow_file:
  "getWorkflowFileFromRef example_env = Some ''size.yml''"
  by (simp add: getWorkflowFileFromRef_def example_env_def startsWith_def capture_group_def
        line_terminator_def)

lemma example_resolve:
  "resolveWorkflowId example_env w = (Inr (Some 42), w\<lparr>tick := Suc (tick w)\<rparr>)"
proof -
  have "retryOnFail (api_call (\<lambda>t. getWorkflow example_env t ''size.yml'')) ''getWorkflow'' w
          = (Inr 42, w\<lparr>tick := Suc (tick w)\<rparr>)"
    by (rule retryOnFail_first_ok) (simp add: example_env_def)
  then show ?thesis
    by (simp add: resolveWorkflowId_def example_workflow_file)
qed

theorem workflow_run_lookup_priority_order_witness:
  "fst (findBaselineArtifactFromWorkflowRuns example_env [''main'', ''master''] world0)
     = Inr (Some (example_artifact 101 ''bundle-stats'' False ''main''))"
proof -
  have "fst (findBaselineArtifactFromWorkflowRuns example_env [''main'', ''master''] world0)
          = Inr (first_match_in_priority_order example_runs example_artifacts [''main'', ''master''])"
  proof (rule workflow_run_lookup_priority_order [OF example_resolve])
    show "(42::nat) \<noteq> 0" by simp
    show "\<forall>t. \<forall>b \<in> set [''main'', ''master''].
           \<exists>r. listWorkflowRuns example_env t 42 b = Inr r
              \<and> (case r of None \<Rightarrow> [] | Some rs \<Rightarrow> rs) = example_runs b"
      by (simp add: example_env_def)
    show "\<forall>t. \<forall>b \<in> set [''main'', ''master'']. \<forall>run \<in> set (example_runs b).
           \<exists>data. listWorkflowRunArtifacts example_env t run = Inr data
                 \<and> extractArtifacts data = example_artifacts run"
      by (simp add: example_env_def)
  qed
  also have "first_match_in_priority_order example_runs example_artifacts [''main'', ''master'']
           = Some (example_artifact 101 ''bundle-stats'' False ''main'')"
    by (simp add: first_match_in_priority_order_def example_runs_def example_artifacts_def
          example_artifact_def)
  finally show ?thesis .
qed

section \<open>The page limit of the repository-wide scan\<close>

lemma scan_pages_limit:
  assumes "pageCount < n"
    and "\<And>i. pageCount \<le> i \<Longrightarrow> i < n \<Longrightarrow>
           listArtifactsForRepo ev (tick w + (i - pageCount)) i = Inr (pages i, has_next i)"
    and "\<And>i. pageCount \<le> i \<Longrightarrow> i < n \<Longrightarrow>
           find (is_candidate branches) (extractArtifacts (pages i)) = None"
    and "\<And>i. pageCount \<le> i \<Longrightarrow> Suc i < n \<Longrightarrow> has_next i"
  shows "scan_pages ev branches (int n) pageCount checked w =
           (Inr LimitReached,
            warning (limit_message (int n)
                       (checked + sum_list (map (\<lambda>i. length (extractArtifacts (pages i))) [pageCount..<n]))
                       branches)
              (w\<lparr>tick := tick w + (n - pageCount)\<rparr>))"
  using assms
proof (induction "n - pageCount" arbitrary: pageCount checked w)
  case 0
  then show ?case by simp
next
  case (Suc k)
  have page: "listArtifactsForRepo ev (tick w) pageCount = Inr (pages pageCount, has_next pageCount)"
    using Suc.prems(2) [of pageCount] Suc.prems(1) by simp
  have none: "find (is_candidate branches) (extractArtifacts (pages pageCount)) = None"
    using Suc.prems(3) [of pageCount] Suc.prems(1) by simp
  show ?case
  proof (cases "Suc pageCount = n")
    case True
    then have "[pageCount..<n] = [pageCount]"
      by (metis upt_rec lessI upt_conv_Nil order_refl not_less)
    with True page none show ?thesis
      by (subst scan_pages.simps) (auto simp: api_call_def Let_def)
  next
    case False
    with Suc.prems(1) have lt: "Suc pageCount < n" by simp
    then have hn: "has_next pageCount" using Suc.prems(4) [of pageCount] by simp
    let ?w1 = "w\<lparr>tick := tick w + 1\<rparr>"
    let ?t1 = "checked + length (extractArtifacts (pages pageCount))"
    have IH: "scan_pages ev branches (int n) (Suc pageCount) ?t1 ?w1 =
           (Inr LimitReached,
            warning (limit_message (int n)
                       (?t1 + sum_list (map (\<lambda>i. length (extractArtifacts (pages i))) [Suc pageCount..<n]))
                       branches)
              (?w1\<lparr>tick := tick ?w1 + (n - Suc pageCount)\<rparr>))"
    proof (rule Suc.hyps(1))
      show "k = n - Suc pageCount" using Suc.hyps(2) by simp
      show "Suc pageCount < n" by (rule lt)
      show "listArtifactsForRepo ev (tick ?w1 + (i - Suc pageCount)) i = Inr (pages i, has_next i)"
        if "Suc pageCount \<le> i" "i < n" for i
      proof -
        have "tick ?w1 + (i - Suc pageCount) = tick w + (i - pageCount)" using that by simp
        then show ?thesis using Suc.prems(2) [of i] that by simp
      qed
      show "find (is_candidate branches) (extractArtifacts (pages i)) = None"
        if "Suc pageCount \<le> i" "i < n" for i
        using Suc.prems(3) [of i] that by simp
      show "has_next i" if "Suc pageCount \<le> i" "Suc i < n" for i
        using Suc.prems(4) [of i] that by simp
    qed
    have upt: "[pageCount..<n] = pageCount # [Suc pageCount..<n]"
      using Suc.prems(1) by (simp add: upt_rec)
    have ticks: "?w1\<lparr>tick := tick ?w1 + (n - Suc pageCount)\<rparr> = w\<lparr>tick := tick w + (n - pageCount)\<rparr>"
      using lt by simp
    have "scan_pages ev branches (int n) pageCount checked w =
            scan_pages ev branches (int n) (Suc pageCount) ?t1 ?w1"
      using page none hn lt
      by (subst scan_pages.simps) (simp add: api_call_def Let_def)
    with IH upt ticks show ?thesis by (simp add: add.assoc)
  qed
qed

text \<open>
  C4. Let the configured page limit be at least 1 (10 when it is not given) and let the
  lookup reach the repository-wide scan (the targeted lookup found nothing, or threw, or
  its artifact gave no record). If the scan reads that many pages,
  each without a non-expired artifact named bundle-stats from a candidate branch, then
  fetchBaselineArtifact returns null without throwing, having read exactly that many
  pages, and the last line of the log is the warning that names the page limit and the
  number of artifacts checked (the sum of the page lengths) and tells to increase
  max-artifact-pages.
\<close>

theorem repo_scan_page_limit:
  assumes "1 \<le> maxPages"
    and "findBaselineArtifactFromWorkflowRuns ev branches w0 = (Inr None, w)
       \<or> (\<exists>e wa. findBaselineArtifactFromWorkflowRuns ev branches w0 = (Inl e, wa)
              \<and> w = warning (''Workflow-run lookup failed: '' @ message e) wa)
       \<or> (\<exists>a w1 w2. findBaselineArtifactFromWorkflowRuns ev branches w0 = (Inr (Some a), w1)
              \<and> downloadBaselineArtifact ev (artifact_id a) ''workflow-run'' w1 = (Inr None, w2)
              \<and> w = warning ''Workflow-run baseline download failed; falling back to repo search.'' w2)"
    and "\<forall>i < nat maxPages.
           listArtifactsForRepo ev (tick w + i) i = Inr (pages i, has_next i)
         \<and> find (is_candidate branches) (extractArtifacts (pages i)) = None
         \<and> (Suc i < nat maxPages \<longrightarrow> has_next i)"
    and "maxPages = (case maxPagesArg of None \<Rightarrow> 10 | Some m \<Rightarrow> m)"
  shows "fetchBaselineArtifact ev branches maxPagesArg w0 =
           (Inr None,
            warning (limit_message maxPages
                       (sum_list (map (\<lambda>i. length (extractArtifacts (pages i))) [0..<nat maxPages]))
                       branches)
              ((info (search_message maxPages) w)\<lparr>tick := tick w + nat maxPages\<rparr>))"
proof -
  let ?n = "nat maxPages"
  let ?w = "info (search_message maxPages) w"
  from assms(1) have n: "int ?n = maxPages" "0 < ?n" by simp_all
  have "scan_pages ev branches (int ?n) 0 0 ?w =
           (Inr LimitReached,
            warning (limit_message (int ?n)
                       (0 + sum_list (map (\<lambda>i. length (extractArtifacts (pages i))) [0..<?n]))
                       branches)
              (?w\<lparr>tick := tick ?w + (?n - 0)\<rparr>))"
  proof (rule scan_pages_limit)
    show "0 < ?n" by (rule n(2))
    show "listArtifactsForRepo ev (tick ?w + (i - 0)) i = Inr (pages i, has_next i)"
      if "i < ?n" for i
      using assms(3) that by simp
    show "find (is_candidate branches) (extractArtifacts (pages i)) = None"
      if "i < ?n" for i
      using assms(3) that by simp
    show "has_next i" if "Suc i < ?n" for i
      using assms(3) that by (meson Suc_lessD)
  qed
  then have scan: "scan_pages ev branches maxPages 0 0 ?w =
           (Inr LimitReached,
            warning (limit_message maxPages
                       (sum_list (map (\<lambda>i. length (extractArtifacts (pages i))) [0..<?n]))
                       branches)
              (?w\<lparr>tick := tick w + ?n\<rparr>))"
    unfolding n(1) by simp
  have "repo_search ev branches maxPages w =
           (Inr None,
            warning (limit_message maxPages
                       (sum_list (map (\<lambda>i. length (extractArtifacts (pages i))) [0..<?n]))
                       branches)
              (?w\<lparr>tick := tick w + ?n\<rparr>))"
    unfolding repo_search_def scan by simp
  moreover from assms(2)
  have "fetch_body ev branches maxPages w0 = repo_search ev branches maxPages w"
    by (auto simp: fetch_body_def)
  ultimately show ?thesis
    by (simp add: fetchBaselineArtifact_def assms(4) [symmetric])
qed

lemma example_lookup_release:
  "findBaselineArtifactFromWorkflowRuns example_env_many_pages [''release''] world0
     = (Inr None, world0\<lparr>tick := 2\<rparr>)"
proof -
  have r: "resolveWorkflowId example_env_many_pages w = (Inr (Some 42), w\<lparr>tick := Suc (tick w)\<rparr>)" for w
  proof -
    have "retryOnFail (api_call (\<lambda>t. getWorkflow example_env_many_pages t ''size.yml'')) ''getWorkflow'' w
          = (Inr 42, w\<lparr>tick := Suc (tick w)\<rparr>)"
      by (rule retryOnFail_first_ok) (simp add: example_env_def example_env_many_pages_def)
    moreover have "getWorkflowFileFromRef example_env_many_pages = Some ''size.yml''"
      using example_workflow_file
      by (simp add: getWorkflowFileFromRef_def example_env_many_pages_def)
    ultimately show ?thesis
      by (simp add: resolveWorkflowId_def)
  qed
  have l: "retryOnFail (api_call (\<lambda>t. listWorkflowRuns example_env_many_pages t 42 ''release''))
             ''listWorkflowRuns'' w = (Inr (Some []), w\<lparr>tick := Suc (tick w)\<rparr>)" for w
    by (rule retryOnFail_first_ok)
       (simp add: example_env_def example_env_many_pages_def example_runs_def)
  show ?thesis
    by (simp add: findBaselineArtifactFromWorkflowRuns_def r l world0_def)
qed

theorem repo_scan_page_limit_witness:
  "fetchBaselineArtifact example_env_many_pages [''release''] None world0 =
     (Inr None,
      world0\<lparr>tick := 12,
             wlog := [Info ''Searching for baseline artifact (max 10 pages, 1000 artifacts)'',
                      Warning (''Reached max artifact search limit (10 pages, 1000 artifacts checked). ''
                        @ ''No baseline found for branches: release. ''
                        @ ''Increase max-artifact-pages if your baseline is older. ''
                        @ ''Current repository has at least 1000 artifacts - consider reducing artifact retention.'')]\<rparr>)"
proof -
  have "fetchBaselineArtifact example_env_many_pages [''release''] None world0 =
           (Inr None,
            warning (limit_message 10
                       (sum_list (map (\<lambda>i. length (extractArtifacts
                           (BareArray (replicate 100 (example_artifact 300 ''coverage'' False ''release'')))))
                         [0..<nat 10]))
                       [''release''])
              ((info (search_message 10) (world0\<lparr>tick := 2\<rparr>))\<lparr>tick := tick (world0\<lparr>tick := 2\<rparr>) + nat 10\<rparr>))"
  proof (rule repo_scan_page_limit [OF _ disjI1 [OF example_lookup_release],
                 where has_next = "\<lambda>i. True"])
    show "(1::int) \<le> 10" by simp
    show "(10::int) = (case None of None \<Rightarrow> 10 | Some m \<Rightarrow> m)" by simp
    show "\<forall>i<nat 10.
       listArtifactsForRepo example_env_many_pages (tick (world0\<lparr>tick := 2\<rparr>) + i) i =
       Inr (BareArray (replicate 100 (example_artifact 300 ''coverage'' False ''release'')), True) \<and>
       find (is_candidate [''release''])
        (extractArtifacts (BareArray (replicate 100 (example_artifact 300 ''coverage'' False ''release'')))) = None \<and>
       (Suc i < nat 10 \<longrightarrow> True)"
      by (simp add: example_env_many_pages_def find_None_iff is_candidate_def example_artifact_def
            ARTIFACT_NAME_def)
  qed
  then show ?thesis
    by (simp add: limit_message_def search_message_def show_int_def sum_list_triv
          warning_def info_def world0_def digit_def)
qed

section \<open>Fallback after a targeted artifact without a record\<close>

text \<open>
  C10. When the targeted lookup finds an artifact and loading it returns null (it does
  not throw), fetchBaselineArtifact does not return at once: it logs the warning
  "Workflow-run baseline download failed; falling back to repo search." and its result is
  the result of the repository-wide scan started after that warning (null, with a
  warning, if that scan throws).
\<close>

theorem workflow_download_null_falls_back:
  assumes "findBaselineArtifactFromWorkflowRuns ev branches w = (Inr (Some a), w1)"
    and "downloadBaselineArtifact ev (artifact_id a) ''workflow-run'' w1 = (Inr None, w2)"
    and "maxPages = (case maxPagesArg of None \<Rightarrow> 10 | Some m \<Rightarrow> m)"
  shows "fetchBaselineArtifact ev branches maxPagesArg w =
           (case repo_search ev branches maxPages
                   (warning ''Workflow-run baseline download failed; falling back to repo search.'' w2) of
              (Inl e, w3) \<Rightarrow> (Inr None, warning (''Failed to download baseline: '' @ message e) w3)
            | (Inr stats, w3) \<Rightarrow> (Inr stats, w3))"
  using assms by (simp add: fetchBaselineArtifact_def fetch_body_def)

lemma example_lookup_main:
  "findBaselineArtifactFromWorkflowRuns example_env_empty_first [''main''] world0
     = (Inr (Some (example_artifact 101 ''bundle-stats'' False ''main'')),
        world0\<lparr>tick := 4, wlog := [Info ''Found baseline artifact in workflow run 10 (main)'']\<rparr>)"
proof -
  have r: "resolveWorkflowId example_env_empty_first w = (Inr (Some 42), w\<lparr>tick := Suc (tick w)\<rparr>)" for w
  proof -
    have "retryOnFail (api_call (\<lambda>t. getWorkflow example_env_empty_first t ''size.yml'')) ''getWorkflow'' w
          = (Inr 42, w\<lparr>tick := Suc (tick w)\<rparr>)"
      by (rule retryOnFail_first_ok) (simp add: example_env_def example_env_empty_first_def)
    moreover have "getWorkflowFileFromRef example_env_empty_first = Some ''size.yml''"
      using example_workflow_file
      by (simp add: getWorkflowFileFromRef_def example_env_empty_first_def)
    ultimately show ?thesis
      by (simp add: resolveWorkflowId_def)
  qed
  have l: "retryOnFail (api_call (\<lambda>t. listWorkflowRuns example_env_empty_first t 42 ''main''))
             ''listWorkflowRuns'' w = (Inr (Some [11, 10]), w\<lparr>tick := Suc (tick w)\<rparr>)" for w
    by (rule retryOnFail_first_ok)
       (simp add: example_env_def example_env_empty_first_def example_runs_def)
  have a: "retryOnFail (api_call (\<lambda>t. listWorkflowRunArtifacts example_env_empty_first t run))
             ''listWorkflowRunArtifacts'' w
           = (Inr (ObjectWithArtifacts (Some (example_artifacts run))), w\<lparr>tick := Suc (tick w)\<rparr>)" for w run
    by (rule retryOnFail_first_ok)
       (simp add: example_env_def example_env_empty_first_def)
  show ?thesis
    by (simp add: findBaselineArtifactFromWorkflowRuns_def r l a world0_def example_artifacts_def
          example_artifact_def is_baseline_def ARTIFACT_NAME_def info_def digit_def)
qed

lemma example_download_empty:
  "downloadBaselineArtifact example_env_empty_first
      (artifact_id (example_artifact 101 ''bundle-stats'' False ''main'')) ''workflow-run''
      (world0\<lparr>tick := 4, wlog := [Info ''Found baseline artifact in workflow run 10 (main)'']\<rparr>)
   = (Inr None,
      world0\<lparr>tick := 5, wlog := [Info ''Found baseline artifact in workflow run 10 (main)'',
                                  Warning ''Downloaded artifact is empty'']\<rparr>)"
proof -
  have d: "retryOnFail (api_call (\<lambda>t. downloadArtifact example_env_empty_first t 101))
             ''downloadArtifact'' w = (Inr (BufferData []), w\<lparr>tick := Suc (tick w)\<rparr>)" for w
    by (rule retryOnFail_first_ok) (simp add: example_env_empty_first_def)
  show ?thesis
    by (simp add: downloadBaselineArtifact_def example_artifact_def d world0_def warning_def)
qed

lemma example_repo_search:
  "repo_search example_env_empty_first [''main''] 10
     (warning ''Workflow-run baseline download failed; falling back to repo search.''
       (world0\<lparr>tick := 5, wlog := [Info ''Found baseline artifact in workflow run 10 (main)'',
                                  Warning ''Downloaded artifact is empty'']\<rparr>))
   = (Inr (Some example_stats),
      world0\<lparr>tick := 11,
             wlog := [Info ''Found baseline artifact in workflow run 10 (main)'',
                      Warning ''Downloaded artifact is empty'',
                      Warning ''Workflow-run baseline download failed; falling back to repo search.'',
                      Info ''Searching for baseline artifact (max 10 pages, 1000 artifacts)'',
                      Info ''Found baseline artifact after checking 1 artifacts (1 pages)'',
                      Info ''Baseline loaded (repo-pagination): 400 bytes gzip from commit 0123abc''],
             disk := [''/tmp/baseline-artifact.zip'' \<mapsto> ''PK'',
                      ''/tmp/baseline-extracted/bundle-stats.json'' \<mapsto> example_record_text],
             made_dirs := [''/tmp/baseline-extracted''],
             inflated := [''bundle-stats.json'']\<rparr>)"
proof -
  have d: "retryOnFail (api_call (\<lambda>t. downloadArtifact example_env_empty_first t 102))
             ''downloadArtifact'' w = (Inr (BufferData ''PK''), w\<lparr>tick := Suc (tick w)\<rparr>)" for w
    by (rule retryOnFail_first_ok) (simp add: example_env_empty_first_def)
  have paths: "zipPath example_env_empty_first = ''/tmp/baseline-artifact.zip''"
    "extractDir_of example_env_empty_first = ''/tmp/baseline-extracted''"
    "path_join ''/tmp/baseline-extracted'' STATS_FILE = ''/tmp/baseline-extracted/bundle-stats.json''"
    by (simp_all add: zipPath_def extractDir_of_def tempDir_def example_env_empty_first_def example_env_def
          path_join_def path_normalize_def startsWith_def STATS_FILE_def)
  have target: "path_resolve (cwd example_env_empty_first) ''/tmp/baseline-extracted'' ''bundle-stats.json''
          = ''/tmp/baseline-extracted/bundle-stats.json''"
    by (simp add: path_resolve_def startsWith_def)
  have dn: "path_dirname ''/tmp/baseline-extracted/bundle-stats.json'' = ''/tmp/baseline-extracted''"
    by (simp add: path_dirname_def)
  have env_simps: "fs_fault example_env_empty_first = (\<lambda>t. None)"
    "unzip example_env_empty_first = (\<lambda>bytes. Inr [\<lparr>entryName = ''bundle-stats.json'', isDirectory = False,
                               header_size = Some 193, getData = Inr example_record_text\<rparr>])"
    "listArtifactsForRepo example_env_empty_first =
        (\<lambda>t page. Inr (BareArray [example_artifact 102 ''bundle-stats'' False ''main''], False))"
    by (simp_all add: example_env_empty_first_def example_env_def example_record_entry_def
          example_record_length)
  have loaded: "load_record example_env_empty_first source example_record_text w
           = (Inr (Some example_stats),
              info (''Baseline loaded ('' @ source @ ''): 400 bytes gzip from commit 0123abc'') w)"
    for source w
    by (rule example_load_record) (simp_all add: example_env_empty_first_def example_env_def)
  show ?thesis
    apply (simp add: repo_search_def search_message_def show_int_def digit_def)
    apply (subst scan_pages.simps)
    apply (simp add: api_call_def env_simps is_candidate_def example_artifact_def ARTIFACT_NAME_def
             info_def warning_def world0_def digit_def)
    apply (simp add: downloadBaselineArtifact_def d MAX_ARTIFACT_SIZE_MB_def fs_writeFileSync_def
             env_simps paths open_zip_def target dn startsWith_def fs_mkdirSync_def entry_getData_def
             MAX_ARTIFACT_UNZIPPED_MB_def fs_existsSync_def fs_readFileSync_def loaded info_def)
    done
qed


theorem workflow_download_null_falls_back_witness:
  "fetchBaselineArtifact example_env_empty_first [''main''] None world0
   = (Inr (Some example_stats),
      world0\<lparr>tick := 11,
             wlog := [Info ''Found baseline artifact in workflow run 10 (main)'',
                      Warning ''Downloaded artifact is empty'',
                      Warning ''Workflow-run baseline download failed; falling back to repo search.'',
                      Info ''Searching for baseline artifact (max 10 pages, 1000 artifacts)'',
                      Info ''Found baseline artifact after checking 1 artifacts (1 pages)'',
                      Info ''Baseline loaded (repo-pagination): 400 bytes gzip from commit 0123abc''],
             disk := [''/tmp/baseline-artifact.zip'' \<mapsto> ''PK'',
                      ''/tmp/baseline-extracted/bundle-stats.json'' \<mapsto> example_record_text],
             made_dirs := [''/tmp/baseline-extracted''],
             inflated := [''bundle-stats.json'']\<rparr>)"
  using workflow_download_null_falls_back
          [OF example_lookup_main example_download_empty, of 10 None]
  by (simp add: example_repo_search)

section \<open>Extraction: the path check and the size ceiling\<close>

lemma unzipped_total_Nil [simp]: "unzipped_total ev dir [] = 0"
  by (simp add: unzipped_total_def)

lemma unzipped_total_Cons:
  "unzipped_total ev dir (entry # entries) =
     (if startsWith (path_resolve (cwd ev) dir (entryName entry)) (dir @ ''/'') \<and> \<not> isDirectory entry
      then entry_size entry else 0) + unzipped_total ev dir entries"
  by (simp add: unzipped_total_def)

lemma extract_completed_within_ceiling:
  "extract_entries ev dir entries ub w = (Inr Completed, w') \<Longrightarrow>
     ub \<le> MAX_ARTIFACT_UNZIPPED_MB * 1024 * 1024 \<Longrightarrow>
     ub + unzipped_total ev dir entries \<le> MAX_ARTIFACT_UNZIPPED_MB * 1024 * 1024"
proof (induction entries arbitrary: ub w)
  case Nil
  then show ?case by simp
next
  case (Cons entry entries)
  let ?inside = "startsWith (path_resolve (cwd ev) dir (entryName entry)) (dir @ ''/'')"
  show ?case
  proof (cases "?inside \<and> \<not> isDirectory entry")
    case False
    then consider "\<not> ?inside" | "?inside" "isDirectory entry" by blast
    then show ?thesis
    proof cases
      case 1
      with Cons.prems(1) have "extract_entries ev dir entries ub
                (warning (''Skipping path traversal: '' @ entryName entry) w) = (Inr Completed, w')"
        by (simp add: Let_def)
      from Cons.IH [OF this Cons.prems(2)] 1 show ?thesis by (simp add: unzipped_total_Cons)
    next
      case 2
      with Cons.prems(1) obtain w1 where "extract_entries ev dir entries ub w1 = (Inr Completed, w')"
        by (auto simp: Let_def split: prod.splits sum.splits)
      from Cons.IH [OF this Cons.prems(2)] 2 show ?thesis by (simp add: unzipped_total_Cons)
    qed
  next
    case True
    with Cons.prems(1) obtain bytes w3 where
      g: "getData entry = Inr bytes"
      and fit: "ub + (case header_size entry of Some d \<Rightarrow> d | None \<Rightarrow> length bytes)
                  \<le> MAX_ARTIFACT_UNZIPPED_MB * 1024 * 1024"
      and rest: "extract_entries ev dir entries
                   (ub + (case header_size entry of Some d \<Rightarrow> d | None \<Rightarrow> length bytes)) w3
                 = (Inr Completed, w')"
      by (auto simp: Let_def entry_getData_def split: prod.splits sum.splits if_splits option.splits)
    have "entry_size entry = (case header_size entry of Some d \<Rightarrow> d | None \<Rightarrow> length bytes)"
      by (simp add: entry_size_def g split: option.splits)
    with Cons.IH [OF rest fit] True show ?thesis
      by (simp add: unzipped_total_Cons add.assoc)
  qed
qed


lemma disk_warning [simp]: "disk (warning m w) = disk w"
  and made_dirs_warning [simp]: "made_dirs (warning m w) = made_dirs w"
  and inflated_warning [simp]: "inflated (warning m w) = inflated w"
  by (simp_all add: warning_def)

lemma extract_step:
  assumes "startsWith (path_resolve (cwd ev) dir (entryName entry)) (dir @ ''/'')"
    and "extract_entries ev dir (entry # entries) ub w = (r, w')"
  shows "(disk w' = disk w
          \<and> set (made_dirs w') \<subseteq> set (made_dirs w)
               \<union> {path_resolve (cwd ev) dir (entryName entry),
                   path_dirname (path_resolve (cwd ev) dir (entryName entry))}
          \<and> set (inflated w') \<subseteq> set (inflated w) \<union> {entryName entry})
       \<or> (\<exists>u ub'. extract_entries ev dir entries ub' u = (r, w')
             \<and> (\<forall>p. \<not> startsWith p (dir @ ''/'') \<longrightarrow> disk u p = disk w p)
             \<and> set (made_dirs u) \<subseteq> set (made_dirs w)
                  \<union> {path_resolve (cwd ev) dir (entryName entry),
                      path_dirname (path_resolve (cwd ev) dir (entryName entry))}
             \<and> set (inflated u) \<subseteq> set (inflated w) \<union> {entryName entry})"
proof (cases "isDirectory entry")
  case True
  with assms show ?thesis
    by (cases "fs_fault ev (tick w)") (auto simp: Let_def fs_mkdirSync_def)
next
  case False
  show ?thesis
  proof (cases "header_size entry \<noteq> None
                \<and> ub + the (header_size entry) > MAX_ARTIFACT_UNZIPPED_MB * 1024 * 1024")
    case True
    with assms \<open>\<not> isDirectory entry\<close> show ?thesis
      by (auto simp: Let_def)
  next
    case nd: False
    show ?thesis
    proof (cases "getData entry")
      case (Inl e)
      with assms \<open>\<not> isDirectory entry\<close> nd show ?thesis
        by (auto simp: Let_def entry_getData_def)
    next
      case (Inr bytes)
      let ?sz = "case header_size entry of Some d \<Rightarrow> d | None \<Rightarrow> length bytes"
      show ?thesis
      proof (cases "ub + ?sz > MAX_ARTIFACT_UNZIPPED_MB * 1024 * 1024")
        case True
        with assms \<open>\<not> isDirectory entry\<close> nd Inr show ?thesis
          by (auto simp: Let_def entry_getData_def)
      next
        case fits: False
        show ?thesis
        proof (cases "fs_fault ev (tick w)")
          case (Some e)
          with assms \<open>\<not> isDirectory entry\<close> nd Inr fits show ?thesis
            by (auto simp: Let_def entry_getData_def fs_mkdirSync_def)
        next
          case None
          show ?thesis
          proof (cases "fs_fault ev (Suc (tick w))")
            case (Some e)
            with assms \<open>\<not> isDirectory entry\<close> nd Inr fits None show ?thesis
              by (auto simp: Let_def entry_getData_def fs_mkdirSync_def fs_writeFileSync_def)
          next
            case n2: None
            let ?t = "path_resolve (cwd ev) dir (entryName entry)"
            let ?u = "w\<lparr>inflated := inflated w @ [entryName entry],
                          made_dirs := made_dirs w @ [path_dirname ?t],
                          tick := Suc (Suc (tick w)),
                          disk := (disk w)(?t \<mapsto> bytes)\<rparr>"
            from assms \<open>\<not> isDirectory entry\<close> nd Inr fits None n2
            have "extract_entries ev dir entries (ub + ?sz) ?u = (r, w')"
              by (auto simp: Let_def entry_getData_def fs_mkdirSync_def fs_writeFileSync_def)
            moreover have "\<forall>p. \<not> startsWith p (dir @ ''/'') \<longrightarrow> disk ?u p = disk w p"
              using assms(1) by auto
            moreover have "set (made_dirs ?u) \<subseteq> set (made_dirs w) \<union> {?t, path_dirname ?t}"
              and "set (inflated ?u) \<subseteq> set (inflated w) \<union> {entryName entry}"
              by auto
            ultimately show ?thesis by blast
          qed
        qed
      qed
    qed
  qed
qed

lemma extract_frame:
  assumes "extract_entries ev dir entries ub w = (r, w')"
  shows "(\<forall>p. \<not> startsWith p (dir @ ''/'') \<longrightarrow> disk w' p = disk w p)
       \<and> set (made_dirs w') \<subseteq> set (made_dirs w)
            \<union> {t. \<exists>e \<in> set entries.
                     startsWith (path_resolve (cwd ev) dir (entryName e)) (dir @ ''/'')
                   \<and> (t = path_resolve (cwd ev) dir (entryName e)
                      \<or> t = path_dirname (path_resolve (cwd ev) dir (entryName e)))}
       \<and> set (inflated w') \<subseteq> set (inflated w)
            \<union> {entryName e |e. e \<in> set entries
                     \<and> startsWith (path_resolve (cwd ev) dir (entryName e)) (dir @ ''/'')}"
  using assms
proof (induction entries arbitrary: ub w)
  case Nil
  then show ?case by simp
next
  case (Cons entry entries)
  let ?target = "path_resolve (cwd ev) dir (entryName entry)"
  let ?inside = "startsWith ?target (dir @ ''/'')"
  show ?case
  proof (cases ?inside)
    case False
    with Cons.prems have "extract_entries ev dir entries ub
                (warning (''Skipping path traversal: '' @ entryName entry) w) = (r, w')"
      by (simp add: Let_def)
    from Cons.IH [OF this] show ?thesis by auto
  next
    case True
    from extract_step [OF True Cons.prems] show ?thesis
    proof (elim disjE exE conjE)
      assume "disk w' = disk w"
        "set (made_dirs w') \<subseteq> set (made_dirs w) \<union> {?target, path_dirname ?target}"
        "set (inflated w') \<subseteq> set (inflated w) \<union> {entryName entry}"
      with True show ?thesis by auto
    next
      fix u ub'
      assume go: "extract_entries ev dir entries ub' u = (r, w')"
        and d: "\<forall>p. \<not> startsWith p (dir @ ''/'') \<longrightarrow> disk u p = disk w p"
        and m: "set (made_dirs u) \<subseteq> set (made_dirs w) \<union> {?target, path_dirname ?target}"
        and i: "set (inflated u) \<subseteq> set (inflated w) \<union> {entryName entry}"
      from Cons.IH [OF go] have
        d': "\<forall>p. \<not> startsWith p (dir @ ''/'') \<longrightarrow> disk w' p = disk u p"
        and m': "set (made_dirs w') \<subseteq> set (made_dirs u)
            \<union> {t. \<exists>e \<in> set entries.
                     startsWith (path_resolve (cwd ev) dir (entryName e)) (dir @ ''/'')
                   \<and> (t = path_resolve (cwd ev) dir (entryName e)
                      \<or> t = path_dirname (path_resolve (cwd ev) dir (entryName e)))}"
        and i': "set (inflated w') \<subseteq> set (inflated u)
            \<union> {entryName e |e. e \<in> set entries
                     \<and> startsWith (path_resolve (cwd ev) dir (entryName e)) (dir @ ''/'')}"
        by blast+
      from d d' have "\<forall>p. \<not> startsWith p (dir @ ''/'') \<longrightarrow> disk w' p = disk w p" by simp
      moreover from m m' True have "set (made_dirs w') \<subseteq> set (made_dirs w)
            \<union> {t. \<exists>e \<in> set (entry # entries).
                     startsWith (path_resolve (cwd ev) dir (entryName e)) (dir @ ''/'')
                   \<and> (t = path_resolve (cwd ev) dir (entryName e)
                      \<or> t = path_dirname (path_resolve (cwd ev) dir (entryName e)))}"
        by auto
      moreover from i i' True have "set (inflated w') \<subseteq> set (inflated w)
            \<union> {entryName e |e. e \<in> set (entry # entries)
                     \<and> startsWith (path_resolve (cwd ev) dir (entryName e)) (dir @ ''/'')}"
        by auto
      ultimately show ?thesis by blast
    qed
  qed
qed

text \<open>
  C3. An archive entry whose resolved target does not lie under the extraction directory
  is skipped: the loop logs "Skipping path traversal: <name>" and goes on with the
  remaining entries, the byte count unchanged. Whatever an extraction does, it leaves
  every file outside the extraction directory as it was, so the target of such an entry
  is not written; the directories it makes are targets of entries under that directory or
  their parent directories; and the data of such an entry is not even inflated.
\<close>

theorem path_traversal_entry_skipped:
  "(\<not> startsWith (path_resolve (cwd ev) dir (entryName entry)) (dir @ ''/'') \<longrightarrow>
       extract_entries ev dir (entry # entries) ub w
         = extract_entries ev dir entries ub
             (warning (''Skipping path traversal: '' @ entryName entry) w))
   \<and> (extract_entries ev dir archive ub w = (r, w') \<longrightarrow>
        (\<forall>p. \<not> startsWith p (dir @ ''/'') \<longrightarrow> disk w' p = disk w p)
      \<and> set (made_dirs w') \<subseteq> set (made_dirs w)
            \<union> {t. \<exists>e \<in> set archive.
                     startsWith (path_resolve (cwd ev) dir (entryName e)) (dir @ ''/'')
                   \<and> (t = path_resolve (cwd ev) dir (entryName e)
                      \<or> t = path_dirname (path_resolve (cwd ev) dir (entryName e)))}
      \<and> (\<forall>e \<in> set archive.
            \<not> startsWith (path_resolve (cwd ev) dir (entryName e)) (dir @ ''/'') \<longrightarrow>
              disk w' (path_resolve (cwd ev) dir (entryName e))
                = disk w (path_resolve (cwd ev) dir (entryName e))
            \<and> (entryName e \<in> set (inflated w') \<longrightarrow> entryName e \<in> set (inflated w))))"
proof (intro conjI impI)
  assume "\<not> startsWith (path_resolve (cwd ev) dir (entryName entry)) (dir @ ''/'')"
  then show "extract_entries ev dir (entry # entries) ub w
         = extract_entries ev dir entries ub
             (warning (''Skipping path traversal: '' @ entryName entry) w)"
    by (simp add: Let_def)
next
  assume run: "extract_entries ev dir archive ub w = (r, w')"
  note frame = extract_frame [OF run]
  from frame show "\<forall>p. \<not> startsWith p (dir @ ''/'') \<longrightarrow> disk w' p = disk w p"
    by blast
  from frame show "set (made_dirs w') \<subseteq> set (made_dirs w)
            \<union> {t. \<exists>e \<in> set archive.
                     startsWith (path_resolve (cwd ev) dir (entryName e)) (dir @ ''/'')
                   \<and> (t = path_resolve (cwd ev) dir (entryName e)
                      \<or> t = path_dirname (path_resolve (cwd ev) dir (entryName e)))}"
    by blast
  show "\<forall>e \<in> set archive.
            \<not> startsWith (path_resolve (cwd ev) dir (entryName e)) (dir @ ''/'') \<longrightarrow>
              disk w' (path_resolve (cwd ev) dir (entryName e))
                = disk w (path_resolve (cwd ev) dir (entryName e))
            \<and> (entryName e \<in> set (inflated w') \<longrightarrow> entryName e \<in> set (inflated w))"
  proof (intro ballI impI conjI)
    fix e
    assume out: "\<not> startsWith (path_resolve (cwd ev) dir (entryName e)) (dir @ ''/'')"
    with frame show "disk w' (path_resolve (cwd ev) dir (entryName e))
                = disk w (path_resolve (cwd ev) dir (entryName e))"
      by blast
    assume inf: "entryName e \<in> set (inflated w')"
    define inside where "inside n = startsWith (path_resolve (cwd ev) dir n) (dir @ ''/'')" for n
    from frame have "set (inflated w') \<subseteq> set (inflated w)
            \<union> {entryName e |e. e \<in> set archive \<and> inside (entryName e)}"
      unfolding inside_def by (elim conjE)
    moreover from out have "\<not> inside (entryName e)"
      unfolding inside_def .
    ultimately show "entryName e \<in> set (inflated w)"
      using inf by auto
  qed
qed

lemma writeFile_ok:
  "fs_writeFileSync ev p bytes w = (Inr u, w2) \<Longrightarrow> disk w2 p = Some bytes"
  by (auto simp: fs_writeFileSync_def split: option.splits)

lemma writeFile_no_fault:
  "fs_fault ev (tick w) = None \<Longrightarrow> \<exists>w2. fs_writeFileSync ev p bytes w = (Inr (), w2)"
  by (simp add: fs_writeFileSync_def)

text \<open>
  The size ceiling within one load. When the sizes of the file entries under the
  extraction directory add up to more than 200 MB (be it one entry or many), the
  extraction never completes; a load whose download gave that archive returns no record
  itself, and returns null when the download is within 50 MB and the archive file could
  be written. An entry whose declared size would take the count over 200 MB stops the
  extraction before its data is inflated.
\<close>

theorem zip_bomb_guard:
  assumes "209715200 < unzipped_total ev (extractDir_of ev) entries"
  shows "fst (extract_entries ev (extractDir_of ev) entries 0 w) \<noteq> Inr Completed
       \<and> (retryOnFail (api_call (\<lambda>t. downloadArtifact ev t artifactId)) ''downloadArtifact'' w
            = (Inr downloadData, w1)
          \<and> toBuffer downloadData = Inr zipBuffer \<and> unzip ev zipBuffer = Inr entries \<longrightarrow>
            (\<forall>stats. fst (downloadBaselineArtifact ev artifactId source w) \<noteq> Inr (Some stats))
          \<and> (length zipBuffer \<le> 52428800 \<and> fs_fault ev (tick w1) = None \<longrightarrow>
               fst (downloadBaselineArtifact ev artifactId source w) = Inr None))
       \<and> (\<forall>entry rest ub u d.
            startsWith (path_resolve (cwd ev) (extractDir_of ev) (entryName entry))
              (extractDir_of ev @ ''/'')
          \<and> \<not> isDirectory entry \<and> header_size entry = Some d \<and> 209715200 < ub + d \<longrightarrow>
            extract_entries ev (extractDir_of ev) (entry # rest) ub u
              = (Inr Aborted, warning abort_message u)
          \<and> inflated (warning abort_message u) = inflated u)"
proof -
  have never: "fst (extract_entries ev (extractDir_of ev) entries 0 u) \<noteq> Inr Completed" for u
  proof
    assume c: "fst (extract_entries ev (extractDir_of ev) entries 0 u) = Inr Completed"
    obtain u' where "extract_entries ev (extractDir_of ev) entries 0 u = (Inr Completed, u')"
      using c by (cases "extract_entries ev (extractDir_of ev) entries 0 u") simp
    from extract_completed_within_ceiling [OF this] assms show False
      by (simp add: MAX_ARTIFACT_UNZIPPED_MB_def)
  qed
  have load: "(\<forall>stats. fst (downloadBaselineArtifact ev artifactId source w) \<noteq> Inr (Some stats))
          \<and> (length zipBuffer \<le> 52428800 \<and> fs_fault ev (tick w1) = None \<longrightarrow>
               fst (downloadBaselineArtifact ev artifactId source w) = Inr None)"
    if dl: "retryOnFail (api_call (\<lambda>t. downloadArtifact ev t artifactId)) ''downloadArtifact'' w
            = (Inr downloadData, w1)
          \<and> toBuffer downloadData = Inr zipBuffer \<and> unzip ev zipBuffer = Inr entries"
  proof -
    have after_write: "fst (case (case open_zip ev w2 of
              Inl e \<Rightarrow> (Inl e, w2)
            | Inr es \<Rightarrow> extract_entries ev (extractDir_of ev) es 0 w2) of
        (Inl zipError, w3) \<Rightarrow>
          (Inr None, warning (''Failed to extract artifact zip: '' @ message zipError) w3)
      | (Inr Aborted, w3) \<Rightarrow> (Inr None, w3)
      | (Inr Completed, w3) \<Rightarrow> rest w3) = Inr None"
      if "disk w2 (zipPath ev) = Some zipBuffer"
      for w2 and rest :: "world \<Rightarrow> (error + json option) \<times> world"
    proof -
      from that dl have o: "open_zip ev w2 = Inr entries" by (simp add: open_zip_def)
      obtain x u' where x: "extract_entries ev (extractDir_of ev) entries 0 w2 = (x, u')"
        by (cases "extract_entries ev (extractDir_of ev) entries 0 w2")
      with never [of w2] have "x \<noteq> Inr Completed" by simp
      then show ?thesis
        by (cases x; cases "projr x") (simp_all add: o x)
    qed
    have a: "fst (downloadBaselineArtifact ev artifactId source w) \<noteq> Inr (Some stats)" for stats
    proof (cases "fs_writeFileSync ev (zipPath ev) zipBuffer w1")
      case (Pair x w2)
      show ?thesis
      proof (cases x)
        case (Inl e)
        with dl Pair show ?thesis by (simp add: downloadBaselineArtifact_def)
      next
        case (Inr u)
        with Pair have "disk w2 (zipPath ev) = Some zipBuffer" by (simp add: writeFile_ok)
        from after_write [OF this] dl Pair Inr show ?thesis
          by (simp add: downloadBaselineArtifact_def Let_def)
      qed
    qed
    have b: "fst (downloadBaselineArtifact ev artifactId source w) = Inr None"
      if ok: "length zipBuffer \<le> 52428800 \<and> fs_fault ev (tick w1) = None"
    proof -
      from ok obtain w2 where wr: "fs_writeFileSync ev (zipPath ev) zipBuffer w1 = (Inr (), w2)"
        using writeFile_no_fault by blast
      then have "disk w2 (zipPath ev) = Some zipBuffer" by (rule writeFile_ok)
      from after_write [OF this] dl wr ok show ?thesis
        by (simp add: downloadBaselineArtifact_def Let_def MAX_ARTIFACT_SIZE_MB_def)
    qed
    from a b show ?thesis by blast
  qed
  have declared: "extract_entries ev (extractDir_of ev) (entry # rest) ub u
              = (Inr Aborted, warning abort_message u)
          \<and> inflated (warning abort_message u) = inflated u"
    if "startsWith (path_resolve (cwd ev) (extractDir_of ev) (entryName entry))
              (extractDir_of ev @ ''/'')
          \<and> \<not> isDirectory entry \<and> header_size entry = Some d \<and> 209715200 < ub + d"
    for entry rest ub u d
    using that by (simp add: Let_def MAX_ARTIFACT_UNZIPPED_MB_def)
  from never [of w] load declared show ?thesis by blast
qed

lemma example_paths:
  "extractDir_of example_env = ''/tmp/baseline-extracted''"
  "extractDir_of example_env_bomb = ''/tmp/baseline-extracted''"
  "cwd example_env_bomb = cwd example_env"
  "path_resolve (cwd example_env) ''/tmp/baseline-extracted'' ''bundle-stats.json''
          = ''/tmp/baseline-extracted/bundle-stats.json''"
  "path_resolve (cwd example_env) ''/tmp/baseline-extracted'' ''assets/big.bin''
          = ''/tmp/baseline-extracted/assets/big.bin''"
  "path_resolve (cwd example_env) ''/tmp/baseline-extracted'' ''../../etc/passwd''
          = ''/etc/passwd''"
  "path_dirname ''/tmp/baseline-extracted/bundle-stats.json'' = ''/tmp/baseline-extracted''"
  "path_resolve (cwd example_env) ''/tmp/baseline-extracted'' ''report.html''
          = ''/tmp/baseline-extracted/report.html''"
  "path_dirname ''/tmp/baseline-extracted/report.html'' = ''/tmp/baseline-extracted''"
  by (simp_all add: extractDir_of_def tempDir_def example_env_bomb_def example_env_def
        path_join_def path_normalize_def path_resolve_def path_dirname_def startsWith_def)

lemma example_fs_fault:
  "fs_fault example_env = (\<lambda>t. None)" "fs_fault example_env_bomb = (\<lambda>t. None)"
  by (simp_all add: example_env_def example_env_bomb_def)

lemma same_runner_examples:
  "same_runner example_env" "same_runner example_env_stale" "same_runner example_env_commit_only"
  "same_runner example_env_second_load" "same_runner example_env_oversized"
  by (simp_all add: same_runner_def example_env_def example_env_stale_def
        example_env_commit_only_def example_env_second_load_def example_env_oversized_def)

lemma same_runner_paths:
  assumes "same_runner E"
  shows "zipPath E = ''/tmp/baseline-artifact.zip''"
    and "extractDir_of E = ''/tmp/baseline-extracted''"
    and "path_join (extractDir_of E) STATS_FILE = ''/tmp/baseline-extracted/bundle-stats.json''"
    and "path_join ''/tmp/baseline-extracted'' STATS_FILE = ''/tmp/baseline-extracted/bundle-stats.json''"
    and "cwd E = cwd example_env"
    and "fs_fault E = (\<lambda>t. None)"
  using assms
  by (simp_all add: same_runner_def zipPath_def extractDir_of_def tempDir_def STATS_FILE_def
        path_join_def path_normalize_def startsWith_def)

lemma same_runner_load_record:
  assumes "same_runner E"
  shows "load_record E source example_record_text w
           = (Inr (Some example_stats),
              info (''Baseline loaded ('' @ source @ ''): 400 bytes gzip from commit 0123abc'') w)"
    and "load_record E source ''{}'' w
           = (Inl (Error ''Cannot read properties of undefined (reading slice)''), w)"
    and "load_record E source example_commit_only_text w
           = (Inr (Some example_commit_only),
              info (''Baseline loaded ('' @ source
                    @ ''): undefined bytes gzip from commit abcdefg'') w)"
  using assms by (simp_all add: same_runner_def example_load_record)

lemma example_traversal_run:
  "extract_entries example_env ''/tmp/baseline-extracted'' example_traversal_entries 0 world0
   = (Inr Completed,
      world0\<lparr>wlog := [Warning ''Skipping path traversal: ../../etc/passwd''],
             tick := 2,
             disk := [''/tmp/baseline-extracted/bundle-stats.json'' \<mapsto> ''{}''],
             made_dirs := [''/tmp/baseline-extracted''],
             inflated := [''bundle-stats.json'']\<rparr>)"
  by (simp add: example_traversal_entries_def example_paths startsWith_def Let_def
        fs_mkdirSync_def fs_writeFileSync_def entry_getData_def MAX_ARTIFACT_UNZIPPED_MB_def
        warning_def world0_def example_fs_fault)

theorem path_traversal_entry_skipped_witness:
  "\<not> startsWith (path_resolve (cwd example_env) ''/tmp/baseline-extracted'' ''../../etc/passwd'')
       (''/tmp/baseline-extracted'' @ ''/'')
   \<and> extract_entries example_env ''/tmp/baseline-extracted''
         (\<lparr>entryName = ''../../etc/passwd'', isDirectory = False, header_size = Some 10,
            getData = Inr ''root::0:0:''\<rparr> # tl example_traversal_entries) 0 world0
       = extract_entries example_env ''/tmp/baseline-extracted'' (tl example_traversal_entries) 0
           (warning (''Skipping path traversal: '' @ ''../../etc/passwd'') world0)
   \<and> extract_entries example_env ''/tmp/baseline-extracted'' example_traversal_entries 0 world0
       = (Inr Completed,
          world0\<lparr>wlog := [Warning ''Skipping path traversal: ../../etc/passwd''],
             tick := 2,
             disk := [''/tmp/baseline-extracted/bundle-stats.json'' \<mapsto> ''{}''],
             made_dirs := [''/tmp/baseline-extracted''],
             inflated := [''bundle-stats.json'']\<rparr>)
   \<and> disk (world0\<lparr>wlog := [Warning ''Skipping path traversal: ../../etc/passwd''],
             tick := 2,
             disk := [''/tmp/baseline-extracted/bundle-stats.json'' \<mapsto> ''{}''],
             made_dirs := [''/tmp/baseline-extracted''],
             inflated := [''bundle-stats.json'']\<rparr>) ''/etc/passwd'' = disk world0 ''/etc/passwd''"
proof -
  let ?W = "world0\<lparr>wlog := [Warning ''Skipping path traversal: ../../etc/passwd''],
                 tick := 2,
                 disk := [''/tmp/baseline-extracted/bundle-stats.json'' \<mapsto> ''{}''],
                 made_dirs := [''/tmp/baseline-extracted''],
                 inflated := [''bundle-stats.json'']\<rparr>"
  have out: "\<not> startsWith (path_resolve (cwd example_env) ''/tmp/baseline-extracted'' ''../../etc/passwd'')
       (''/tmp/baseline-extracted'' @ ''/'')"
    by (simp add: example_paths startsWith_def)
  have "\<not> startsWith ''/etc/passwd'' (''/tmp/baseline-extracted'' @ ''/'')
              \<longrightarrow> disk ?W ''/etc/passwd'' = disk world0 ''/etc/passwd''"
    by (rule path_traversal_entry_skipped
          [THEN conjunct2, THEN mp, OF example_traversal_run, THEN conjunct1, THEN spec])
  then have "disk ?W ''/etc/passwd'' = disk world0 ''/etc/passwd''"
    by (simp add: startsWith_def)
  moreover have "extract_entries example_env ''/tmp/baseline-extracted''
         (\<lparr>entryName = ''../../etc/passwd'', isDirectory = False, header_size = Some 10,
            getData = Inr ''root::0:0:''\<rparr> # tl example_traversal_entries) 0 world0
       = extract_entries example_env ''/tmp/baseline-extracted'' (tl example_traversal_entries) 0
           (warning (''Skipping path traversal: '' @ ''../../etc/passwd'') world0)"
    using path_traversal_entry_skipped
          [of example_env "''/tmp/baseline-extracted''"
              "\<lparr>entryName = ''../../etc/passwd'', isDirectory = False, header_size = Some 10,
                getData = Inr ''root::0:0:''\<rparr>", THEN conjunct1] out
    by simp
  ultimately show ?thesis
    using out example_traversal_run by (intro conjI)
qed

lemma example_bomb_total:
  "209715200 < unzipped_total example_env_bomb (extractDir_of example_env_bomb) example_bomb_entries"
  by (simp add: unzipped_total_def example_bomb_entries_def example_record_entry_def
        example_record_length example_paths startsWith_def entry_size_def)

lemma example_bomb_download:
  "retryOnFail (api_call (\<lambda>t. downloadArtifact example_env_bomb t 101)) ''downloadArtifact'' world0
     = (Inr (BufferData ''PK''), world0\<lparr>tick := Suc (tick world0)\<rparr>)"
  by (rule retryOnFail_first_ok) (simp add: example_env_bomb_def example_env_def)

theorem zip_bomb_guard_witness:
  "209715200 < unzipped_total example_env_bomb (extractDir_of example_env_bomb) example_bomb_entries
   \<and> unzip example_env_bomb ''PK'' = Inr example_bomb_entries
   \<and> fst (downloadBaselineArtifact example_env_bomb 101 ''workflow-run'' world0) = Inr None
   \<and> fst (extract_entries example_env_bomb (extractDir_of example_env_bomb) example_bomb_entries 0
             world0) \<noteq> Inr Completed
   \<and> extract_entries example_env_bomb (extractDir_of example_env_bomb)
         [\<lparr>entryName = ''assets/big.bin'', isDirectory = False, header_size = Some 209715008,
           getData = Inl (Error ''not inflated'')\<rparr>] 193 world0
       = (Inr Aborted, warning abort_message world0)"
proof -
  note g = zip_bomb_guard [OF example_bomb_total, of world0 101 "BufferData ''PK''"
          "world0\<lparr>tick := Suc (tick world0)\<rparr>" "''PK''" "''workflow-run''"]
  have u: "unzip example_env_bomb ''PK'' = Inr example_bomb_entries"
    by (simp add: example_env_bomb_def)
  have "fst (downloadBaselineArtifact example_env_bomb 101 ''workflow-run'' world0) = Inr None"
    using g example_bomb_download u by (simp add: example_fs_fault)
  moreover have "fst (extract_entries example_env_bomb (extractDir_of example_env_bomb)
                        example_bomb_entries 0 world0) \<noteq> Inr Completed"
    using g by (rule conjunct1)
  moreover have "extract_entries example_env_bomb (extractDir_of example_env_bomb)
         [\<lparr>entryName = ''assets/big.bin'', isDirectory = False, header_size = Some 209715008,
           getData = Inl (Error ''not inflated'')\<rparr>] 193 world0
       = (Inr Aborted, warning abort_message world0)"
    using g [THEN conjunct2, THEN conjunct2, rule_format,
             of "\<lparr>entryName = ''assets/big.bin'', isDirectory = False,
                  header_size = Some 209715008, getData = Inl (Error ''not inflated'')\<rparr>"
                209715008 193 "[]" world0]
    by (simp add: example_paths startsWith_def)
  ultimately show ?thesis
    using example_bomb_total u by (intro conjI)
qed

section \<open>A record left behind by an aborted extraction\<close>


lemma example_lookup_main_any:
  assumes "GITHUB_WORKFLOW_REF E = GITHUB_WORKFLOW_REF example_env"
    and "getWorkflow E = getWorkflow example_env"
    and "listWorkflowRuns E = listWorkflowRuns example_env"
    and "listWorkflowRunArtifacts E = listWorkflowRunArtifacts example_env"
  shows "findBaselineArtifactFromWorkflowRuns E [''main''] world0
     = (Inr (Some (example_artifact 101 ''bundle-stats'' False ''main'')),
        world0\<lparr>tick := 4, wlog := [Info ''Found baseline artifact in workflow run 10 (main)'']\<rparr>)"
proof -
  have r: "resolveWorkflowId E w = (Inr (Some 42), w\<lparr>tick := Suc (tick w)\<rparr>)" for w
  proof -
    have "retryOnFail (api_call (\<lambda>t. getWorkflow E t ''size.yml'')) ''getWorkflow'' w
          = (Inr 42, w\<lparr>tick := Suc (tick w)\<rparr>)"
      by (rule retryOnFail_first_ok) (simp add: assms example_env_def)
    moreover have "getWorkflowFileFromRef E = Some ''size.yml''"
      using example_workflow_file
      by (simp add: getWorkflowFileFromRef_def assms)
    ultimately show ?thesis
      by (simp add: resolveWorkflowId_def)
  qed
  have l: "retryOnFail (api_call (\<lambda>t. listWorkflowRuns E t 42 ''main''))
             ''listWorkflowRuns'' w = (Inr (Some [11, 10]), w\<lparr>tick := Suc (tick w)\<rparr>)" for w
    by (rule retryOnFail_first_ok)
       (simp add: assms example_env_def example_runs_def)
  have a: "retryOnFail (api_call (\<lambda>t. listWorkflowRunArtifacts E t run))
             ''listWorkflowRunArtifacts'' w
           = (Inr (ObjectWithArtifacts (Some (example_artifacts run))), w\<lparr>tick := Suc (tick w)\<rparr>)" for w run
    by (rule retryOnFail_first_ok)
       (simp add: assms example_env_def)
  show ?thesis
    by (simp add: findBaselineArtifactFromWorkflowRuns_def r l a world0_def example_artifacts_def
          example_artifact_def is_baseline_def ARTIFACT_NAME_def info_def digit_def)
qed

lemma example_stale_fields:
  "downloadArtifact example_env_stale t 101 = Inr (BufferData ''PK-bomb'')"
  "downloadArtifact example_env_stale t 250 = Inr (BufferData ''PK-report'')"
  "unzip example_env_stale ''PK-bomb'' = Inr example_bomb_entries"
  "unzip example_env_stale ''PK-report'' = Inr [example_report_entry]"
  "listArtifactsForRepo example_env_stale =
     (\<lambda>t page. Inr (BareArray [example_artifact 250 ''bundle-stats'' False ''main''], False))"
  by (simp_all add: example_env_stale_def)

lemma example_stale_lookup:
  "findBaselineArtifactFromWorkflowRuns example_env_stale [''main''] world0
     = (Inr (Some (example_artifact 101 ''bundle-stats'' False ''main'')),
        world0\<lparr>tick := 4, wlog := [Info ''Found baseline artifact in workflow run 10 (main)'']\<rparr>)"
  by (rule example_lookup_main_any) (simp_all add: example_env_stale_def)

lemma example_stale_first_load:
  "downloadBaselineArtifact example_env_stale 101 ''workflow-run''
      (world0\<lparr>tick := 4, wlog := [Info ''Found baseline artifact in workflow run 10 (main)'']\<rparr>)
   = (Inr None,
      world0\<lparr>tick := 8,
             wlog := [Info ''Found baseline artifact in workflow run 10 (main)'',
                      Warning ''Artifact unzipped size exceeds 200 MB; aborting extraction.''],
             disk := [''/tmp/baseline-artifact.zip'' \<mapsto> ''PK-bomb'',
                      ''/tmp/baseline-extracted/bundle-stats.json'' \<mapsto> example_record_text],
             made_dirs := [''/tmp/baseline-extracted''],
             inflated := [''bundle-stats.json'']\<rparr>)"
proof -
  have d: "retryOnFail (api_call (\<lambda>t. downloadArtifact example_env_stale t 101))
             ''downloadArtifact'' w = (Inr (BufferData ''PK-bomb''), w\<lparr>tick := Suc (tick w)\<rparr>)" for w
    by (rule retryOnFail_first_ok) (rule example_stale_fields)
  note p = same_runner_paths [OF same_runner_examples(2)]
  show ?thesis
    by (simp add: downloadBaselineArtifact_def d MAX_ARTIFACT_SIZE_MB_def fs_writeFileSync_def
          p open_zip_def example_stale_fields(3-5) example_bomb_entries_def example_record_entry_def
          example_record_length example_paths startsWith_def fs_mkdirSync_def entry_getData_def
          MAX_ARTIFACT_UNZIPPED_MB_def abort_message_def warning_def world0_def Let_def digit_def)
qed

lemma example_stale_second_load:
  "repo_search example_env_stale [''main''] 10
     (warning ''Workflow-run baseline download failed; falling back to repo search.''
       (world0\<lparr>tick := 8,
             wlog := [Info ''Found baseline artifact in workflow run 10 (main)'',
                      Warning ''Artifact unzipped size exceeds 200 MB; aborting extraction.''],
             disk := [''/tmp/baseline-artifact.zip'' \<mapsto> ''PK-bomb'',
                      ''/tmp/baseline-extracted/bundle-stats.json'' \<mapsto> example_record_text],
             made_dirs := [''/tmp/baseline-extracted''],
             inflated := [''bundle-stats.json'']\<rparr>))
   = (Inr (Some example_stats),
      world0\<lparr>tick := 14,
             wlog := [Info ''Found baseline artifact in workflow run 10 (main)'',
                      Warning ''Artifact unzipped size exceeds 200 MB; aborting extraction.'',
                      Warning ''Workflow-run baseline download failed; falling back to repo search.'',
                      Info ''Searching for baseline artifact (max 10 pages, 1000 artifacts)'',
                      Info ''Found baseline artifact after checking 1 artifacts (1 pages)'',
                      Info ''Baseline loaded (repo-pagination): 400 bytes gzip from commit 0123abc''],
             disk := [''/tmp/baseline-artifact.zip'' \<mapsto> ''PK-bomb'',
                      ''/tmp/baseline-extracted/bundle-stats.json'' \<mapsto> example_record_text,
                      ''/tmp/baseline-artifact.zip'' \<mapsto> ''PK-report'',
                      ''/tmp/baseline-extracted/report.html'' \<mapsto> ''<html></html>''],
             made_dirs := [''/tmp/baseline-extracted'', ''/tmp/baseline-extracted''],
             inflated := [''bundle-stats.json'', ''report.html'']\<rparr>)"
proof -
  have d: "retryOnFail (api_call (\<lambda>t. downloadArtifact example_env_stale t 250))
             ''downloadArtifact'' w = (Inr (BufferData ''PK-report''), w\<lparr>tick := Suc (tick w)\<rparr>)" for w
    by (rule retryOnFail_first_ok) (rule example_stale_fields)
  note p = same_runner_paths [OF same_runner_examples(2)]
  note l = same_runner_load_record [OF same_runner_examples(2)]
  show ?thesis
    apply (simp add: repo_search_def search_message_def show_int_def digit_def)
    apply (subst scan_pages.simps)
    apply (simp add: api_call_def example_stale_fields(3-5) is_candidate_def example_artifact_def
             ARTIFACT_NAME_def info_def warning_def world0_def digit_def)
    apply (simp add: downloadBaselineArtifact_def d MAX_ARTIFACT_SIZE_MB_def fs_writeFileSync_def
             p open_zip_def example_stale_fields(3-5) example_report_entry_def example_paths
             startsWith_def fs_mkdirSync_def entry_getData_def
             MAX_ARTIFACT_UNZIPPED_MB_def fs_existsSync_def fs_readFileSync_def l info_def Let_def)
    done
qed

text \<open>
  C2 fails on the code in its clause that no partial record is returned as valid. The
  load that meets the ceiling returns null, but the files its extraction has written
  stay in the extraction directory, which every load of the run shares and no load
  clears. Here the targeted lookup finds artifact 101, whose archive holds a record and
  then an entry that takes the declared sizes one byte over 200 MB: the extraction
  writes the record file, aborts, and the load returns null. fetchBaselineArtifact falls
  back to the repository-wide scan and loads artifact 250, whose archive holds no record
  file; that load finds the record file of the aborted extraction and returns its
  record as the baseline.
\<close>

theorem aborted_extraction_record_returned_as_baseline:
  "unzip example_env_stale ''PK-bomb'' = Inr example_bomb_entries
   \<and> 209715200
       < unzipped_total example_env_stale (extractDir_of example_env_stale) example_bomb_entries
   \<and> hd example_bomb_entries = example_record_entry
   \<and> getData example_record_entry = Inr example_record_text
   \<and> json_parse example_env_stale example_record_text = Inr example_stats
   \<and> unzip example_env_stale ''PK-report'' = Inr [example_report_entry]
   \<and> entryName example_report_entry = ''report.html''
   \<and> downloadBaselineArtifact example_env_stale 101 ''workflow-run''
        (world0\<lparr>tick := 4, wlog := [Info ''Found baseline artifact in workflow run 10 (main)'']\<rparr>)
      = (Inr None,
         world0\<lparr>tick := 8,
                wlog := [Info ''Found baseline artifact in workflow run 10 (main)'',
                         Warning ''Artifact unzipped size exceeds 200 MB; aborting extraction.''],
                disk := [''/tmp/baseline-artifact.zip'' \<mapsto> ''PK-bomb'',
                         ''/tmp/baseline-extracted/bundle-stats.json'' \<mapsto> example_record_text],
                made_dirs := [''/tmp/baseline-extracted''],
                inflated := [''bundle-stats.json'']\<rparr>)
   \<and> fst (fetchBaselineArtifact example_env_stale [''main''] None world0) = Inr (Some example_stats)
   \<and> wlog (snd (fetchBaselineArtifact example_env_stale [''main''] None world0))
      = [Info ''Found baseline artifact in workflow run 10 (main)'',
         Warning ''Artifact unzipped size exceeds 200 MB; aborting extraction.'',
         Warning ''Workflow-run baseline download failed; falling back to repo search.'',
         Info ''Searching for baseline artifact (max 10 pages, 1000 artifacts)'',
         Info ''Found baseline artifact after checking 1 artifacts (1 pages)'',
         Info ''Baseline loaded (repo-pagination): 400 bytes gzip from commit 0123abc'']
   \<and> inflated (snd (fetchBaselineArtifact example_env_stale [''main''] None world0))
      = [''bundle-stats.json'', ''report.html'']"
proof -
  have total: "209715200
       < unzipped_total example_env_stale (extractDir_of example_env_stale) example_bomb_entries"
    by (simp add: unzipped_total_def example_bomb_entries_def example_record_entry_def
          example_record_length same_runner_paths [OF same_runner_examples(2)] example_paths
          startsWith_def entry_size_def)
  have entries: "hd example_bomb_entries = example_record_entry"
    "getData example_record_entry = Inr example_record_text"
    "entryName example_report_entry = ''report.html''"
    by (simp_all add: example_bomb_entries_def example_record_entry_def example_report_entry_def)
  have parse: "json_parse example_env_stale example_record_text = Inr example_stats"
    by (simp add: example_env_stale_def example_env_def example_parse_simps)
  have fetch: "fetchBaselineArtifact example_env_stale [''main''] None world0
     = (Inr (Some example_stats),
      world0\<lparr>tick := 14,
             wlog := [Info ''Found baseline artifact in workflow run 10 (main)'',
                      Warning ''Artifact unzipped size exceeds 200 MB; aborting extraction.'',
                      Warning ''Workflow-run baseline download failed; falling back to repo search.'',
                      Info ''Searching for baseline artifact (max 10 pages, 1000 artifacts)'',
                      Info ''Found baseline artifact after checking 1 artifacts (1 pages)'',
                      Info ''Baseline loaded (repo-pagination): 400 bytes gzip from commit 0123abc''],
             disk := [''/tmp/baseline-artifact.zip'' \<mapsto> ''PK-bomb'',
                      ''/tmp/baseline-extracted/bundle-stats.json'' \<mapsto> example_record_text,
                      ''/tmp/baseline-artifact.zip'' \<mapsto> ''PK-report'',
                      ''/tmp/baseline-extracted/report.html'' \<mapsto> ''<html></html>''],
             made_dirs := [''/tmp/baseline-extracted'', ''/tmp/baseline-extracted''],
             inflated := [''bundle-stats.json'', ''report.html'']\<rparr>)"
    using example_stale_first_load
    by (simp add: fetchBaselineArtifact_def fetch_body_def example_stale_lookup
          example_artifact_def example_stale_second_load)
  have log: "wlog (snd (fetchBaselineArtifact example_env_stale [''main''] None world0))
      = [Info ''Found baseline artifact in workflow run 10 (main)'',
         Warning ''Artifact unzipped size exceeds 200 MB; aborting extraction.'',
         Warning ''Workflow-run baseline download failed; falling back to repo search.'',
         Info ''Searching for baseline artifact (max 10 pages, 1000 artifacts)'',
         Info ''Found baseline artifact after checking 1 artifacts (1 pages)'',
         Info ''Baseline loaded (repo-pagination): 400 bytes gzip from commit 0123abc'']"
    and infl: "inflated (snd (fetchBaselineArtifact example_env_stale [''main''] None world0))
      = [''bundle-stats.json'', ''report.html'']"
    and res: "fst (fetchBaselineArtifact example_env_stale [''main''] None world0)
      = Inr (Some example_stats)"
    by (simp_all add: fetch)
  from example_stale_fields(3) total entries(1,2) parse example_stale_fields(4) entries(3)
       example_stale_first_load res log infl
  show ?thesis by (intro conjI)
qed

section \<open>Hard failures of the load and the catch of the fetch\<close>


















end
